theory Spec2Isabelle
  imports Main "HOL-Library.Sublist"
begin

section \<open>JavaScript values\<close>

text \<open>
  Strings are lists of characters. An exception is a value: a function that can throw
  returns a sum whose left injection is the thrown error. \<open>Error\<close> is an error
  raised with \<^verbatim>\<open>throw new Error(msg)\<close>; \<open>TypeError\<close> is the one the
  engine raises when a property of \<^verbatim>\<open>undefined\<close> is read.
\<close>

datatype js_error = Error string | TypeError string

fun message_of :: "js_error \<Rightarrow> string" where
  "message_of (Error m) = m"
| "message_of (TypeError m) = m"

text \<open>
  \<^verbatim>\<open>a || b\<close> where \<open>a\<close> is a string or \<^verbatim>\<open>undefined\<close>: the empty string and
  \<^verbatim>\<open>undefined\<close> are falsy.
\<close>

definition js_or :: "string option \<Rightarrow> string \<Rightarrow> string" where
  "js_or a b = (case a of None \<Rightarrow> b | Some s \<Rightarrow> if s = [] then b else s)"

text \<open>
  The names of the members every object literal inherits from \<^verbatim>\<open>Object.prototype\<close>.
  A read \<^verbatim>\<open>obj[key]\<close> of an object literal finds the object's own property first and
  an inherited member otherwise.
\<close>

definition objectPrototypeKeys :: "string list" where
  "objectPrototypeKeys =
     [''constructor'', ''__proto__'', ''hasOwnProperty'', ''isPrototypeOf'',
      ''propertyIsEnumerable'', ''toLocaleString'', ''toString'', ''valueOf'',
      ''__defineGetter__'', ''__defineSetter__'', ''__lookupGetter__'', ''__lookupSetter__'']"

text \<open>\<^verbatim>\<open>xs.join(sep)\<close> on a list of strings.\<close>

fun join_with :: "string \<Rightarrow> string list \<Rightarrow> string" where
  "join_with sep [] = []"
| "join_with sep [x] = x"
| "join_with sep (x # y # ys) = x @ sep @ join_with sep (y # ys)"

section \<open>Link Shortener Client (bulk-uploader.js)\<close>

definition MAX_RETRIES :: nat where
  "MAX_RETRIES = 3"

definition RETRY_DELAY :: nat where
  "RETRY_DELAY = 2000"

record metadata =
  md_prospect_id :: string
  md_business_type :: string
  md_site_index :: nat
  md_site_display_name :: string
  md_company :: string

record url_mapping =
  um_original_url :: string
  um_metadata :: metadata

record result_data =
  shortUrl :: string
  shortCode :: string
  originalUrl :: string
  expiresAt :: int

text \<open>
  One element of the result list. A field the service leaves out is \<open>None\<close>; a
  missing \<^verbatim>\<open>fallback\<close> reads as false.
\<close>

record shorten_result =
  sr_success :: bool
  sr_original_url :: string
  sr_data :: "result_data option"
  sr_error :: "string option"
  sr_metadata :: "metadata option"
  sr_fallback :: bool

text \<open>The body of the bulk request: one entry per mapping.\<close>

record request_entry =
  rq_original_url :: string
  rq_prospect_id :: string
  rq_business_type :: string
  rq_company :: string

text \<open>
  What the catch block reads of a caught error: \<^verbatim>\<open>error.code\<close>,
  \<^verbatim>\<open>error.message\<close> and \<^verbatim>\<open>error.response?.status\<close>.
\<close>

record caught_error =
  err_code :: "string option"
  err_message :: "string option"
  err_status :: "nat option"

record response_data =
  rd_success :: bool
  rd_results :: "shorten_result list option"
  rd_error :: "string option"

text \<open>
  The outcome of one \<^verbatim>\<open>axios.post\<close>: the promise resolves with a response whose
  \<^verbatim>\<open>data\<close> may be missing, or rejects with an error. The network is a function
  from the attempt number and the request body to the outcome.
\<close>

datatype post_outcome = Resolved "response_data option" | Rejected caught_error

type_synonym network = "nat \<Rightarrow> request_entry list \<Rightarrow> post_outcome"

text \<open>The effects of the client, in order: a request sent, a delay waited (ms).\<close>

datatype event = Post nat | Sleep nat

definition thrown :: "string \<Rightarrow> caught_error" where
  "thrown m = \<lparr>err_code = None, err_message = Some m, err_status = None\<rparr>"

definition bulkRequest :: "url_mapping list \<Rightarrow> request_entry list" where
  "bulkRequest urlMappings =
     map (\<lambda>mapping. \<lparr>rq_original_url = um_original_url mapping,
                       rq_prospect_id = md_prospect_id (um_metadata mapping),
                       rq_business_type = md_business_type (um_metadata mapping),
                       rq_company = md_company (um_metadata mapping)\<rparr>) urlMappings"

text \<open>The body of the \<^verbatim>\<open>try\<close> block: the results, or the error the catch block sees.\<close>

definition attempt_result :: "post_outcome \<Rightarrow> caught_error + shorten_result list" where
  "attempt_result out =
     (case out of
        Rejected e \<Rightarrow> Inl e
      | Resolved None \<Rightarrow> Inl (thrown (''Bulk upload failed: '' @ ''Unknown error''))
      | Resolved (Some d) \<Rightarrow>
          if rd_success d
          then Inr (case rd_results d of Some rs \<Rightarrow> rs | None \<Rightarrow> [])
          else Inl (thrown (''Bulk upload failed: '' @ js_or (rd_error d) ''Unknown error'')))"

definition isRetryable :: "caught_error \<Rightarrow> bool" where
  "isRetryable error =
     (if err_code error = Some ''ECONNRESET'' \<or> err_code error = Some ''ENOTFOUND''
         \<or> err_code error = Some ''ETIMEDOUT'' then True
      else if (case err_message error of Some m \<Rightarrow> sublist ''timeout'' m | None \<Rightarrow> False) then True
      else if (case err_status error of Some s \<Rightarrow> 500 \<le> s | None \<Rightarrow> False) then True
      else if err_status error = Some 429 then True
      else False)"

text \<open>The statement after the loop: all attempts failed.\<close>

definition bulk_failed :: "caught_error option \<Rightarrow> js_error" where
  "bulk_failed lastError =
     Error (''Bulk upload failed: '' @
            js_or (case lastError of None \<Rightarrow> None | Some e \<Rightarrow> err_message e) ''Unknown error'')"

text \<open>
  The retry loop \<^verbatim>\<open>for (attempt = 1; attempt <= MAX_RETRIES; attempt++)\<close>. A
  successful attempt returns; a failed one before the last is retried after the delay
  when the error is retryable and leaves the loop otherwise; the last one falls out of
  the loop.
\<close>

function bulk_attempts ::
  "network \<Rightarrow> request_entry list \<Rightarrow> nat \<Rightarrow> caught_error option
     \<Rightarrow> event list \<times> (js_error + shorten_result list)" where
  "bulk_attempts net req attempt lastError =
     (if attempt \<le> MAX_RETRIES then
        (case attempt_result (net attempt req) of
           Inr results \<Rightarrow> ([Post attempt], Inr results)
         | Inl error \<Rightarrow>
             if attempt < MAX_RETRIES then
               if isRetryable error
               then apfst (\<lambda>evs. Post attempt # Sleep RETRY_DELAY # evs)
                      (bulk_attempts net req (attempt + 1) (Some error))
               else ([Post attempt], Inl (bulk_failed (Some error)))
             else apfst (\<lambda>evs. Post attempt # evs)
                    (bulk_attempts net req (attempt + 1) (Some error)))
      else ([], Inl (bulk_failed lastError)))"
  by pat_completeness auto
termination
  by (relation "measure (\<lambda>(net, req, attempt, lastError). Suc MAX_RETRIES - attempt)") auto

text \<open>The argument is \<open>None\<close> when the caller passes \<^verbatim>\<open>undefined\<close> or \<^verbatim>\<open>null\<close>.\<close>

definition bulkUploadToShortener ::
  "network \<Rightarrow> url_mapping list option \<Rightarrow> event list \<times> (js_error + shorten_result list)" where
  "bulkUploadToShortener net urlMappings =
     (case urlMappings of
        None \<Rightarrow> ([], Inl (Error ''No URL mappings provided for bulk upload''))
      | Some ms \<Rightarrow>
          if ms = [] then ([], Inl (Error ''No URL mappings provided for bulk upload''))
          else bulk_attempts net (bulkRequest ms) 1 None)"

text \<open>
  \<^verbatim>\<open>Date.now()\<close> is read once per mapping; \<open>clock i\<close> is the reading for the
  mapping at index \<open>i\<close>.
\<close>

definition createFallbackResults :: "(nat \<Rightarrow> int) \<Rightarrow> url_mapping list \<Rightarrow> shorten_result list" where
  "createFallbackResults clock urlMappings =
     map (\<lambda>(i, mapping).
            \<lparr>sr_success = True,
             sr_original_url = um_original_url mapping,
             sr_data = Some \<lparr>shortUrl = um_original_url mapping,
                             shortCode = ''original'',
                             originalUrl = um_original_url mapping,
                             expiresAt = clock i + 14 * 24 * 60 * 60 * 1000\<rparr>,
             sr_error = None,
             sr_metadata = Some (um_metadata mapping),
             sr_fallback = True\<rparr>)
         (enumerate 0 urlMappings)"

text \<open>
  The probe request: axios resolves when \<^verbatim>\<open>validateStatus\<close> accepts the status
  (below 500) and rejects otherwise, as it does when no response arrives.
\<close>

datatype probe_outcome = ProbeStatus nat | ProbeNoResponse

definition testShortenerConnection :: "probe_outcome \<Rightarrow> bool" where
  "testShortenerConnection probe =
     (case probe of ProbeStatus s \<Rightarrow> s < 500 | ProbeNoResponse \<Rightarrow> False)"

text \<open>Step 3 of \<^verbatim>\<open>main\<close>: the results handed to the Result Joiner.\<close>

definition shortenStep ::
  "bool \<Rightarrow> probe_outcome \<Rightarrow> network \<Rightarrow> (nat \<Rightarrow> int) \<Rightarrow> url_mapping list \<Rightarrow> shorten_result list" where
  "shortenStep skipShortener probe net clock urlMappings =
     (if skipShortener then createFallbackResults clock urlMappings
      else if \<not> testShortenerConnection probe then createFallbackResults clock urlMappings
      else (case snd (bulkUploadToShortener net (Some urlMappings)) of
              Inr results \<Rightarrow> results
            | Inl error \<Rightarrow> createFallbackResults clock urlMappings))"

text \<open>
  The schedule of a call that makes \<open>k\<close> attempts: the requests in order, with the
  delay between two consecutive ones and nowhere else.
\<close>

definition schedule :: "nat \<Rightarrow> nat \<Rightarrow> event list" where
  "schedule delay k =
     concat (map (\<lambda>i. if i = 1 then [Post 1] else [Sleep delay, Post i]) [1..<Suc k])"

definition attempts_made :: "event list \<Rightarrow> nat" where
  "attempts_made evs = length (filter (\<lambda>ev. case ev of Post i \<Rightarrow> True | Sleep d \<Rightarrow> False) evs)"

section \<open>Link Generator (url-generator.js)\<close>

text \<open>
  A Prospect. The type of \<open>business_type\<close> is a parameter: the components after the
  Record Validator read it as a string; what the validator itself can store there is
  modelled with the validator.
\<close>

record 'bt prospect =
  p_id :: string
  p_company :: string
  p_city :: string
  p_phone :: string
  p_business_type :: 'bt
  p_original_row :: nat

record site =
  site_url :: string
  site_display_name :: string

text \<open>An entry of the category configuration; \<open>sites\<close> may be missing.\<close>

record business_type_config =
  sites :: "site list option"

text \<open>
  The platform's URL class is a parameter of the model: \<open>url_parse\<close> is
  \<^verbatim>\<open>new URL(s)\<close>, which is \<open>None\<close> when the constructor throws, and gives the
  serialised URL up to its path, the decoded query pairs and the fragment;
  \<open>url_encode\<close> is the serialiser of a query name or value.
\<close>

record parsed_url =
  url_prefix :: string
  url_params :: "(string \<times> string) list"
  url_fragment :: string

record url_platform =
  url_parse :: "string \<Rightarrow> parsed_url option"
  url_encode :: "string \<Rightarrow> string"

text \<open>
  \<^verbatim>\<open>searchParams.set(name, v)\<close>: the first pair of that name takes the value and
  the other pairs of that name are removed; without such a pair one is appended.
\<close>

fun params_set :: "string \<Rightarrow> string \<Rightarrow> (string \<times> string) list \<Rightarrow> (string \<times> string) list" where
  "params_set name v [] = [(name, v)]"
| "params_set name v ((k, w) # ps) =
     (if k = name then (name, v) # filter (\<lambda>(k', w'). k' \<noteq> name) ps
      else (k, w) # params_set name v ps)"

definition url_toString :: "url_platform \<Rightarrow> parsed_url \<Rightarrow> string" where
  "url_toString pl u =
     (if url_params u = [] then url_prefix u @ url_fragment u
      else url_prefix u @ ''?''
             @ join_with ''&'' (map (\<lambda>(k, w). url_encode pl k @ ''='' @ url_encode pl w) (url_params u))
             @ url_fragment u)"

definition personalize :: "string \<Rightarrow> string \<Rightarrow> string \<Rightarrow> (string \<times> string) list \<Rightarrow> (string \<times> string) list" where
  "personalize company city phone ps =
     params_set ''phone'' phone (params_set ''city'' city (params_set ''company'' company ps))"

definition createPersonalizedUrl ::
  "url_platform \<Rightarrow> string \<Rightarrow> string \<Rightarrow> string \<Rightarrow> string \<Rightarrow> js_error + string" where
  "createPersonalizedUrl pl baseUrl company city phone =
     (case url_parse pl baseUrl of
        None \<Rightarrow> Inl (Error (''Invalid base URL: '' @ baseUrl))
      | Some url \<Rightarrow>
          Inr (url_toString pl (url\<lparr>url_params := personalize company city phone (url_params url)\<rparr>)))"

text \<open>
  \<^verbatim>\<open>sites.forEach((site, index) => ...)\<close>: the mappings in the order of the sites, or
  the error of the first site whose URL cannot be built.
\<close>

fun sites_forEach ::
  "url_platform \<Rightarrow> string prospect \<Rightarrow> nat \<Rightarrow> site list \<Rightarrow> js_error + url_mapping list" where
  "sites_forEach pl prospect index [] = Inr []"
| "sites_forEach pl prospect index (site # rest) =
     (case createPersonalizedUrl pl (site_url site) (p_company prospect) (p_city prospect)
             (p_phone prospect) of
        Inl e \<Rightarrow> Inl e
      | Inr personalizedUrl \<Rightarrow>
          (case sites_forEach pl prospect (index + 1) rest of
             Inl e \<Rightarrow> Inl e
           | Inr urlMappings \<Rightarrow>
               Inr (\<lparr>um_original_url = personalizedUrl,
                     um_metadata = \<lparr>md_prospect_id = p_id prospect,
                                    md_business_type = p_business_type prospect,
                                    md_site_index = index,
                                    md_site_display_name = site_display_name site,
                                    md_company = p_company prospect\<rparr>\<rparr> # urlMappings)))"

text \<open>
  \<^verbatim>\<open>businessConfig[business_type]\<close> on the configuration object: its own entry, or
  for the name of a member of \<^verbatim>\<open>Object.prototype\<close> that member, which is truthy and
  has no \<^verbatim>\<open>sites\<close>.
\<close>

definition generateUrlsForProspect ::
  "url_platform \<Rightarrow> string prospect \<Rightarrow> (string \<rightharpoonup> business_type_config) \<Rightarrow> js_error + url_mapping list" where
  "generateUrlsForProspect pl prospect businessConfig =
     (let business_type = p_business_type prospect;
          no_sites = Inl (Error (''No demo sites configured for business type: '' @ business_type))
      in case businessConfig business_type of
           None \<Rightarrow>
             if business_type \<in> set objectPrototypeKeys then no_sites
             else Inl (Error (''No configuration found for business type: '' @ business_type))
         | Some businessTypeConfig \<Rightarrow>
             (case sites businessTypeConfig of
                None \<Rightarrow> no_sites
              | Some ss \<Rightarrow> if ss = [] then no_sites else sites_forEach pl prospect 0 ss))"

text \<open>
  The loop of \<^verbatim>\<open>generateDemoUrls\<close> over the prospects, with its state
  \<open>(urlMappings, totalUrls)\<close>; a prospect whose generation throws is logged and skipped.
\<close>

fun generateDemoUrls_loop ::
  "url_platform \<Rightarrow> (string \<rightharpoonup> business_type_config) \<Rightarrow> string prospect list
     \<Rightarrow> url_mapping list \<times> nat \<Rightarrow> url_mapping list \<times> nat" where
  "generateDemoUrls_loop pl businessConfig [] state = state"
| "generateDemoUrls_loop pl businessConfig (prospect # rest) (urlMappings, totalUrls) =
     (case generateUrlsForProspect pl prospect businessConfig of
        Inr prospectUrls \<Rightarrow>
          generateDemoUrls_loop pl businessConfig rest
            (urlMappings @ prospectUrls, totalUrls + length prospectUrls)
      | Inl error \<Rightarrow> generateDemoUrls_loop pl businessConfig rest (urlMappings, totalUrls))"

definition generateDemoUrls ::
  "url_platform \<Rightarrow> (string \<rightharpoonup> business_type_config) \<Rightarrow> string prospect list \<Rightarrow> url_mapping list" where
  "generateDemoUrls pl businessConfig prospects =
     fst (generateDemoUrls_loop pl businessConfig prospects ([], 0))"

text \<open>The mapping the generator builds for the site at position \<open>index\<close>.\<close>

definition mapping_for :: "url_platform \<Rightarrow> string prospect \<Rightarrow> nat \<Rightarrow> site \<Rightarrow> parsed_url \<Rightarrow> url_mapping" where
  "mapping_for pl prospect index site url =
     \<lparr>um_original_url =
        url_toString pl (url\<lparr>url_params :=
          personalize (p_company prospect) (p_city prospect) (p_phone prospect) (url_params url)\<rparr>),
      um_metadata = \<lparr>md_prospect_id = p_id prospect,
                     md_business_type = p_business_type prospect,
                     md_site_index = index,
                     md_site_display_name = site_display_name site,
                     md_company = p_company prospect\<rparr>\<rparr>"

section \<open>Record Validator (csv-parser.js)\<close>

text \<open>
  A raw row maps a column name to its cell. A character stands for a UTF-16 code unit
  below 256; among these the white space of \<^verbatim>\<open>trim\<close> and of \<^verbatim>\<open>\s\<close> is the code
  units 9 to 13, 32 and 160, and \<^verbatim>\<open>toLowerCase\<close> moves the capital letters, 65 to 90
  and 192 to 222 without 215, up by 32.
\<close>

type_synonym raw_row = "string \<rightharpoonup> string"

definition is_js_space :: "char \<Rightarrow> bool" where
  "is_js_space c = ((of_char c :: nat) \<in> {9, 10, 11, 12, 13, 32, 160})"

definition js_trim :: "string \<Rightarrow> string" where
  "js_trim s = rev (dropWhile is_js_space (rev (dropWhile is_js_space s)))"

definition js_lower_char :: "char \<Rightarrow> char" where
  "js_lower_char c =
     (let n = (of_char c :: nat)
      in if (65 \<le> n \<and> n \<le> 90) \<or> (192 \<le> n \<and> n \<le> 222 \<and> n \<noteq> 215)
         then char_of (n + 32) else c)"

definition toLowerCase :: "string \<Rightarrow> string" where
  "toLowerCase s = map js_lower_char s"

text \<open>
  \<^verbatim>\<open>s.replace(/\s+/g, ' ')\<close>: every run of white space becomes one space. The flag
  says that the scan is inside a run.
\<close>

fun collapse_from :: "bool \<Rightarrow> string \<Rightarrow> string" where
  "collapse_from in_run [] = []"
| "collapse_from in_run (c # cs) =
     (if is_js_space c
      then (if in_run then collapse_from True cs else CHR '' '' # collapse_from True cs)
      else c # collapse_from False cs)"

definition collapse_spaces :: "string \<Rightarrow> string" where
  "collapse_spaces s = collapse_from False s"

text \<open>\<^verbatim>\<open>s.replace(/\D/g, '')\<close>: the decimal digits of the string.\<close>

definition is_digit :: "char \<Rightarrow> bool" where
  "is_digit c = (48 \<le> (of_char c :: nat) \<and> (of_char c :: nat) \<le> 57)"

definition digits_only :: "string \<Rightarrow> string" where
  "digits_only s = filter is_digit s"

text \<open>\<^verbatim>\<open>n.toString()\<close> of a row number, and \<^verbatim>\<open>s.padStart(4, '0')\<close>.\<close>

definition digit_char :: "nat \<Rightarrow> char" where
  "digit_char d = char_of (48 + d)"

function nat_toString :: "nat \<Rightarrow> string" where
  "nat_toString n = (if n < 10 then [digit_char n] else nat_toString (n div 10) @ [digit_char (n mod 10)])"
  by pat_completeness auto
termination
  by (relation "measure (\<lambda>n. n)") auto

declare nat_toString.simps [simp del]

definition padStart :: "nat \<Rightarrow> char \<Rightarrow> string \<Rightarrow> string" where
  "padStart width c s = replicate (width - length s) c @ s"

text \<open>
  What \<^verbatim>\<open>validateBusinessType\<close> can return: a string, or a member of
  \<^verbatim>\<open>Object.prototype\<close> that the lookup in the corrections table reached.
\<close>

datatype business_value = StringValue string | PrototypeMember string

text \<open>
  \<^verbatim>\<open>!row[field] || row[field].trim() === ''\<close>: the cell is absent, empty or blank.
\<close>

definition is_missing :: "raw_row \<Rightarrow> string \<Rightarrow> bool" where
  "is_missing row field = (case row field of None \<Rightarrow> True | Some cell \<Rightarrow> cell = [] \<or> js_trim cell = [])"

definition requiredFields :: "string list" where
  "requiredFields = [''company'', ''city'', ''phone'', ''business_type'']"

definition cleanCompanyName :: "string option \<Rightarrow> js_error + string" where
  "cleanCompanyName company =
     (case company of
        None \<Rightarrow> Inl (Error ''Company name cannot be empty'')
      | Some c \<Rightarrow>
          if c = [] \<or> length (js_trim c) = 0 then Inl (Error ''Company name cannot be empty'')
          else (let cleaned = collapse_spaces (js_trim c)
                in if length cleaned > 100
                   then Inl (Error ''Company name too long (max 100 characters)'')
                   else Inr cleaned))"

definition cleanCityName :: "string option \<Rightarrow> js_error + string" where
  "cleanCityName city =
     (case city of
        None \<Rightarrow> Inl (Error ''City name cannot be empty'')
      | Some c \<Rightarrow>
          if c = [] \<or> length (js_trim c) = 0 then Inl (Error ''City name cannot be empty'')
          else (let cleaned = collapse_spaces (js_trim c)
                in if length cleaned > 50
                   then Inl (Error ''City name too long (max 50 characters)'')
                   else Inr cleaned))"

definition cleanPhoneNumber :: "string option \<Rightarrow> js_error + string" where
  "cleanPhoneNumber phone =
     (case phone of
        None \<Rightarrow> Inl (Error ''Phone number cannot be empty'')
      | Some p \<Rightarrow>
          if p = [] \<or> length (js_trim p) = 0 then Inl (Error ''Phone number cannot be empty'')
          else (let cleaned = js_trim p; digits = digits_only cleaned
                in if length digits < 10
                   then Inl (Error ''Phone number must contain at least 10 digits'')
                   else Inr cleaned))"

definition validTypes :: "string list" where
  "validTypes = [''plumbing'', ''landscaping'', ''general'']"

text \<open>The own properties of the object literal \<^verbatim>\<open>corrections\<close>.\<close>

definition corrections :: "(string \<times> string) list" where
  "corrections =
     [(''plumber'', ''plumbing''), (''plumbers'', ''plumbing''),
      (''landscape'', ''landscaping''), (''landscaper'', ''landscaping''),
      (''landscapers'', ''landscaping''), (''garden'', ''landscaping''),
      (''gardening'', ''landscaping''), (''other'', ''general''),
      (''misc'', ''general''), (''service'', ''general'')]"

text \<open>
  \<^verbatim>\<open>corrections[cleaned]\<close> reads the table's own entry for the key and, without one,
  the member of \<^verbatim>\<open>Object.prototype\<close> of that name; such a member is a function or
  an object, so it is truthy and it is what the function returns.
\<close>

definition validateBusinessType :: "string option \<Rightarrow> js_error + business_value" where
  "validateBusinessType businessType =
     (case businessType of
        None \<Rightarrow> Inl (Error ''Business type cannot be empty'')
      | Some b \<Rightarrow>
          if b = [] \<or> length (js_trim b) = 0 then Inl (Error ''Business type cannot be empty'')
          else (let cleaned = toLowerCase (js_trim b)
                in if cleaned \<in> set validTypes then Inr (StringValue cleaned)
                   else (case map_of corrections cleaned of
                           Some corrected \<Rightarrow> Inr (StringValue corrected)
                         | None \<Rightarrow>
                             if cleaned \<in> set objectPrototypeKeys then Inr (PrototypeMember cleaned)
                             else Inl (Error (''Invalid business type: '' @ [CHR 0x22] @ b @ [CHR 0x22]
                                              @ ''. Must be one of: '' @ join_with '', '' validTypes)))))"

definition prospect_id_of :: "nat \<Rightarrow> string" where
  "prospect_id_of rowNumber = ''prospect_'' @ padStart 4 (CHR ''0'') (nat_toString rowNumber)"

definition validateAndCleanProspect :: "raw_row \<Rightarrow> nat \<Rightarrow> js_error + business_value prospect" where
  "validateAndCleanProspect row rowNumber =
     (let missing = filter (is_missing row) requiredFields
      in if length missing > 0
         then Inl (Error (''Missing required fields: '' @ join_with '', '' missing))
         else (case cleanCompanyName (row ''company'') of
                 Inl e \<Rightarrow> Inl e
               | Inr company \<Rightarrow>
                  (case cleanCityName (row ''city'') of
                     Inl e \<Rightarrow> Inl e
                   | Inr city \<Rightarrow>
                      (case cleanPhoneNumber (row ''phone'') of
                         Inl e \<Rightarrow> Inl e
                       | Inr phone \<Rightarrow>
                          (case validateBusinessType (row ''business_type'') of
                             Inl e \<Rightarrow> Inl e
                           | Inr business_type \<Rightarrow>
                               Inr \<lparr>p_id = prospect_id_of rowNumber,
                                    p_company = company, p_city = city, p_phone = phone,
                                    p_business_type = business_type,
                                    p_original_row = rowNumber\<rparr>)))))"

text \<open>
  The \<^verbatim>\<open>data\<close> handler of \<^verbatim>\<open>parseProspectsCSV\<close>, row by row: the state is
  \<open>rowCount\<close> and the prospects and the error lines collected so far.
\<close>

fun parse_rows ::
  "raw_row list \<Rightarrow> nat \<Rightarrow> business_value prospect list \<times> string list
     \<Rightarrow> business_value prospect list \<times> string list" where
  "parse_rows [] rowCount state = state"
| "parse_rows (row # rest) rowCount (prospects, errors) =
     (case validateAndCleanProspect row (rowCount + 1) of
        Inr prospect \<Rightarrow> parse_rows rest (rowCount + 1) (prospects @ [prospect], errors)
      | Inl error \<Rightarrow>
          parse_rows rest (rowCount + 1)
            (prospects, errors @ [''Row '' @ nat_toString (rowCount + 1) @ '': '' @ message_of error]))"

text \<open>The \<^verbatim>\<open>end\<close> handler, for the rows of a file that exists and parses.\<close>

definition parseProspectsCSV :: "raw_row list \<Rightarrow> js_error + business_value prospect list" where
  "parseProspectsCSV rows =
     (case parse_rows rows 0 ([], []) of
        (prospects, errors) \<Rightarrow>
          if length prospects = 0 then Inl (Error ''No valid prospects found in CSV file'')
          else Inr prospects)"

text \<open>
  Step 1 of \<^verbatim>\<open>main\<close> calls \<^verbatim>\<open>parseProspectsCSV(argv.input, argv.businessType)\<close>;
  the function declares one parameter, so the second argument is dropped.
\<close>

definition main_parse :: "string \<Rightarrow> raw_row list \<Rightarrow> js_error + business_value prospect list" where
  "main_parse businessType rows = parseProspectsCSV rows"

text \<open>The number a string of decimal digits denotes, leading zeros allowed.\<close>

definition digits_value :: "string \<Rightarrow> nat" where
  "digits_value s = foldl (\<lambda>a c. 10 * a + ((of_char c :: nat) - 48)) 0 s"

section \<open>Result Joiner (url-generator.js)\<close>

record url_entry =
  ue_original_url :: string
  ue_display_name :: string
  ue_site_index :: nat
  ue_short_url :: "string option"

record prospect_group =
  pg_prospect_id :: string
  pg_company :: string
  pg_business_type :: string
  pg_urls :: "url_entry list"

text \<open>
  The grouped structure is an object keyed by prospect id; it is modelled by the list of
  its entries in the order \<^verbatim>\<open>Object.values\<close> visits them.
\<close>

type_synonym grouped = "(string \<times> prospect_group) list"

text \<open>
  The lookup object \<^verbatim>\<open>urlLookup\<close> is modelled by a finite map from original URL to
  short URL. The two agree on every key that is not the name of a member of
  \<^verbatim>\<open>Object.prototype\<close>, and the keys read here are the serialised URLs of the links.
  A later successful result for the same URL overwrites an earlier one; a result without
  \<^verbatim>\<open>data\<close> or without success is skipped.
\<close>

definition urlLookup :: "shorten_result list \<Rightarrow> (string \<rightharpoonup> string)" where
  "urlLookup shortenedResults =
     foldl (\<lambda>lk result.
              case sr_data result of
                Some d \<Rightarrow> if sr_success result then lk(sr_original_url result \<mapsto> shortUrl d) else lk
              | None \<Rightarrow> lk)
           Map.empty shortenedResults"

text \<open>
  The inner loop over the links of one group, with the two counters as state. The test
  \<^verbatim>\<open>if (urlLookup[url.original_url])\<close> holds for a non-empty string only.
\<close>

fun update_urls ::
  "(string \<rightharpoonup> string) \<Rightarrow> url_entry list \<Rightarrow> nat \<times> nat \<Rightarrow> url_entry list \<times> (nat \<times> nat)" where
  "update_urls lk [] counts = ([], counts)"
| "update_urls lk (url # urls) (updatedCount, failedCount) =
     (case lk (ue_original_url url) of
        Some s \<Rightarrow>
          if s \<noteq> []
          then apfst ((#) (url\<lparr>ue_short_url := Some s\<rparr>))
                 (update_urls lk urls (updatedCount + 1, failedCount))
          else apfst ((#) (url\<lparr>ue_short_url := Some (ue_original_url url)\<rparr>))
                 (update_urls lk urls (updatedCount, failedCount + 1))
      | None \<Rightarrow>
          apfst ((#) (url\<lparr>ue_short_url := Some (ue_original_url url)\<rparr>))
            (update_urls lk urls (updatedCount, failedCount + 1)))"

text \<open>The outer loop over the groups.\<close>

fun update_groups ::
  "(string \<rightharpoonup> string) \<Rightarrow> grouped \<Rightarrow> nat \<times> nat \<Rightarrow> grouped \<times> (nat \<times> nat)" where
  "update_groups lk [] counts = ([], counts)"
| "update_groups lk ((pid, prospect) # rest) counts =
     (case update_urls lk (pg_urls prospect) counts of
        (urls, counts') \<Rightarrow>
          apfst ((#) (pid, prospect\<lparr>pg_urls := urls\<rparr>)) (update_groups lk rest counts'))"

text \<open>The joined structure with \<open>(updatedCount, failedCount)\<close>.\<close>

definition updateWithShortUrls :: "grouped \<Rightarrow> shorten_result list \<Rightarrow> grouped \<times> (nat \<times> nat)" where
  "updateWithShortUrls groupedMappings shortenedResults =
     update_groups (urlLookup shortenedResults) groupedMappings (0, 0)"

text \<open>
  The data of the successful results for a key, in list order, and the short URL the
  last of them carries.
\<close>

definition carried :: "shorten_result list \<Rightarrow> string \<Rightarrow> result_data list" where
  "carried rs k =
     List.map_filter (\<lambda>r. if sr_success r \<and> sr_original_url r = k then sr_data r else None) rs"

definition last_shortUrl :: "shorten_result list \<Rightarrow> string \<Rightarrow> string option" where
  "last_shortUrl rs k = (if carried rs k = [] then None else Some (shortUrl (last (carried rs k))))"

definition lookup_hit :: "shorten_result list \<Rightarrow> url_entry \<Rightarrow> bool" where
  "lookup_hit rs url =
     (case last_shortUrl rs (ue_original_url url) of Some s \<Rightarrow> s \<noteq> [] | None \<Rightarrow> False)"

definition joined_short_url :: "shorten_result list \<Rightarrow> url_entry \<Rightarrow> string" where
  "joined_short_url rs url =
     (case last_shortUrl rs (ue_original_url url) of
        Some s \<Rightarrow> if s = [] then ue_original_url url else s
      | None \<Rightarrow> ue_original_url url)"

text \<open>
  The claim as the specification words it: the looked-up short URL when a successful
  result with the link's original URL exists, otherwise the link's own original URL.
\<close>

definition claimed_short_url :: "shorten_result list \<Rightarrow> url_entry \<Rightarrow> string option" where
  "claimed_short_url rs url =
     (if filter (\<lambda>r. sr_success r \<and> sr_original_url r = ue_original_url url) rs \<noteq> []
      then urlLookup rs (ue_original_url url)
      else Some (ue_original_url url))"

definition join_entry :: "shorten_result list \<Rightarrow> url_entry \<Rightarrow> url_entry" where
  "join_entry rs url = url\<lparr>ue_short_url := Some (joined_short_url rs url)\<rparr>"

definition links_of :: "grouped \<Rightarrow> url_entry list" where
  "links_of gm = concat (map (\<lambda>(pid, g). pg_urls g) gm)"

section \<open>Message Renderer (message-generator.js)\<close>

text \<open>
  The expansion of a replacement string for one match of a pattern without capture
  groups, as \<^verbatim>\<open>String.prototype.replace\<close> performs it: \<^verbatim>\<open>$$\<close> stands for a
  dollar sign, \<^verbatim>\<open>$&\<close> for the matched text, \<^verbatim>\<open>$\<close> with a backquote for the text
  before the match and \<^verbatim>\<open>$\<close> with an apostrophe for the text after it; every other
  character stands for itself.
\<close>

fun getSubstitution :: "string \<Rightarrow> string \<Rightarrow> string \<Rightarrow> string \<Rightarrow> string" where
  "getSubstitution matched pre post [] = []"
| "getSubstitution matched pre post [c] = [c]"
| "getSubstitution matched pre post (c # d # rest) =
     (if c = CHR ''$'' then
        (if d = CHR ''$'' then CHR ''$'' # getSubstitution matched pre post rest
         else if d = CHR ''&'' then matched @ getSubstitution matched pre post rest
         else if d = CHR 0x60 then pre @ getSubstitution matched pre post rest
         else if d = CHR 0x27 then post @ getSubstitution matched pre post rest
         else c # getSubstitution matched pre post (d # rest))
      else c # getSubstitution matched pre post (d # rest))"

text \<open>
  \<^verbatim>\<open>s.replace(new RegExp(pat, 'g'), rep)\<close> for a pattern that matches the literal
  text \<open>pat\<close> only: the matches are found from left to right and do not overlap.
  \<open>pre\<close> is the part of the subject already passed and \<open>skip\<close> the number of
  characters of the current match still to pass.
\<close>

fun replace_scan :: "string \<Rightarrow> string \<Rightarrow> string \<Rightarrow> nat \<Rightarrow> string \<Rightarrow> string" where
  "replace_scan pat rep pre skip [] = []"
| "replace_scan pat rep pre (Suc k) (c # cs) = replace_scan pat rep (pre @ [c]) k cs"
| "replace_scan pat rep pre 0 (c # cs) =
     (if take (length pat) (c # cs) = pat
      then getSubstitution pat pre (drop (length pat) (c # cs)) rep
             @ replace_scan pat rep (pre @ [c]) (length pat - 1) cs
      else c # replace_scan pat rep (pre @ [c]) 0 cs)"

definition js_replace_all :: "string \<Rightarrow> string \<Rightarrow> string \<Rightarrow> string" where
  "js_replace_all pat rep s = replace_scan pat rep [] 0 s"

text \<open>
  The variables are the entries of the object in insertion order. The callers pass the
  keys \<open>company\<close>, \<open>business_type\<close>, \<open>city\<close>, \<open>display_name\<close> and \<open>short_url\<close>;
  for a key of letters and underscores the regular expression built from
  \<^verbatim>\<open>{key}\<close> matches that literal text and nothing else.
\<close>

definition replaceTemplateVariables :: "string \<Rightarrow> (string \<times> string) list \<Rightarrow> string" where
  "replaceTemplateVariables template variables =
     foldl (\<lambda>result (key, v). js_replace_all (''{'' @ key @ ''}'') v result) template variables"

text \<open>
  A template that is missing from the configuration is \<^verbatim>\<open>undefined\<close>, and the
  first \<^verbatim>\<open>result.replace\<close> raises a TypeError (the messages are V8's).
\<close>

definition render_template :: "string option \<Rightarrow> (string \<times> string) list \<Rightarrow> js_error + string" where
  "render_template template variables =
     (case template of
        None \<Rightarrow> Inl (TypeError ''Cannot read properties of undefined (reading 'replace')'')
      | Some t \<Rightarrow> Inr (replaceTemplateVariables t variables))"

record base_template =
  t_greeting :: "string option"
  t_intro :: "string option"
  t_demo_section_header :: "string option"
  t_demo_link_format :: "string option"

record customization =
  cz_intro :: "string option"
  cz_demo_section_header :: "string option"

record templates =
  whatsapp :: "base_template option"
  business_type_customization :: "(string \<rightharpoonup> customization) option"

text \<open>\<^verbatim>\<open>a || b\<close> where both may be \<^verbatim>\<open>undefined\<close>.\<close>

definition js_or_undefined :: "string option \<Rightarrow> string option \<Rightarrow> string option" where
  "js_or_undefined a b = (case a of None \<Rightarrow> b | Some s \<Rightarrow> if s = [] then b else Some s)"

text \<open>The value \<^verbatim>\<open>replace\<close> inserts for a short URL that is still \<^verbatim>\<open>null\<close>.\<close>

definition short_url_text :: "string option \<Rightarrow> string" where
  "short_url_text s = (case s of None \<Rightarrow> ''null'' | Some u \<Rightarrow> u)"

text \<open>
  \<^verbatim>\<open>urls.map(url => replaceTemplateVariables(baseTemplate.demo_link_format, ...))\<close>:
  the lines in order, or the error of the first one.
\<close>

fun link_lines :: "string option \<Rightarrow> url_entry list \<Rightarrow> js_error + string list" where
  "link_lines fmt [] = Inr []"
| "link_lines fmt (url # urls) =
     (case render_template fmt [(''display_name'', ue_display_name url),
                                (''short_url'', short_url_text (ue_short_url url))] of
        Inl e \<Rightarrow> Inl e
      | Inr line \<Rightarrow> (case link_lines fmt urls of Inl e \<Rightarrow> Inl e | Inr ls \<Rightarrow> Inr (line # ls)))"

text \<open>
  The separators are the literals \<^verbatim>\<open>'\\n'\<close> and \<^verbatim>\<open>'\\n\\n'\<close> of the source: a
  backslash followed by the letter n, once and twice.
\<close>

definition line_sep :: string where
  "line_sep = [CHR 0x5C, CHR ''n'']"

definition part_sep :: string where
  "part_sep = line_sep @ line_sep"

definition nonblank :: "string \<Rightarrow> bool" where
  "nonblank part = (part \<noteq> [] \<and> js_trim part \<noteq> [])"

text \<open>
  The statements of \<^verbatim>\<open>generateMessageForProspect\<close> in order. A lookup
  \<^verbatim>\<open>business_type_customization[business_type]\<close> that finds no entry of the
  object's own gives \<^verbatim>\<open>undefined\<close> or a member of \<^verbatim>\<open>Object.prototype\<close>; neither
  has an \<^verbatim>\<open>intro\<close> or a \<^verbatim>\<open>demo_section_header\<close>. The header is computed and
  not used.
\<close>

definition generateMessageForProspect ::
  "string prospect \<Rightarrow> url_entry list \<Rightarrow> templates \<Rightarrow> js_error + string" where
  "generateMessageForProspect prospect urls tmpl =
     (case business_type_customization tmpl of
        None \<Rightarrow> Inl (TypeError (''Cannot read properties of undefined (reading ''
                                @ [CHR 0x27] @ p_business_type prospect @ [CHR 0x27] @ '')''))
      | Some cz \<Rightarrow>
         (let customizations =
                (case cz (p_business_type prospect) of
                   Some c \<Rightarrow> c
                 | None \<Rightarrow> \<lparr>cz_intro = None, cz_demo_section_header = None\<rparr>)
          in case whatsapp tmpl of
               None \<Rightarrow> Inl (TypeError ''Cannot read properties of undefined (reading 'greeting')'')
             | Some baseTemplate \<Rightarrow>
                (case render_template (t_greeting baseTemplate) [(''company'', p_company prospect)] of
                   Inl e \<Rightarrow> Inl e
                 | Inr greeting \<Rightarrow>
                    (case render_template (js_or_undefined (cz_intro customizations) (t_intro baseTemplate))
                            [(''business_type'', p_business_type prospect), (''city'', p_city prospect)] of
                       Inl e \<Rightarrow> Inl e
                     | Inr intro \<Rightarrow>
                        (let demoSectionHeader =
                               js_or_undefined (cz_demo_section_header customizations)
                                 (t_demo_section_header baseTemplate)
                         in case link_lines (t_demo_link_format baseTemplate) urls of
                              Inl e \<Rightarrow> Inl e
                            | Inr ls \<Rightarrow>
                               (let demoLinks = join_with line_sep ls;
                                    messageParts = filter nonblank [greeting, intro, demoLinks]
                                in Inr (join_with part_sep messageParts)))))))"

record demo_url =
  du_display_name :: string
  du_short_url :: "string option"

record 'bt prospect_message = "'bt prospect" +
  whatsapp_message :: string
  demo_urls :: "demo_url list"

definition with_message :: "string prospect \<Rightarrow> string \<Rightarrow> demo_url list \<Rightarrow> string prospect_message" where
  "with_message prospect message urls =
     \<lparr>p_id = p_id prospect, p_company = p_company prospect, p_city = p_city prospect,
      p_phone = p_phone prospect, p_business_type = p_business_type prospect,
      p_original_row = p_original_row prospect,
      whatsapp_message = message, demo_urls = urls\<rparr>"

text \<open>
  The body of the loop of \<^verbatim>\<open>generateWhatsAppMessages\<close> for one prospect: the
  \<^verbatim>\<open>try\<close> block, whose result or error the caller turns into the output record.
  A lookup \<^verbatim>\<open>groupedUrls[prospect.id]\<close> that finds no entry of the object's own
  gives nothing with \<^verbatim>\<open>urls\<close>, so it raises like a missing group.
\<close>

definition message_attempt ::
  "templates \<Rightarrow> grouped \<Rightarrow> string prospect \<Rightarrow> js_error + (string \<times> demo_url list)" where
  "message_attempt tmpl groupedUrls prospect =
     (case map_of groupedUrls (p_id prospect) of
        None \<Rightarrow> Inl (Error (''No URLs found for prospect '' @ p_id prospect))
      | Some urlsForProspect \<Rightarrow>
          if pg_urls urlsForProspect = []
          then Inl (Error (''No URLs found for prospect '' @ p_id prospect))
          else (case generateMessageForProspect prospect (pg_urls urlsForProspect) tmpl of
                  Inl e \<Rightarrow> Inl e
                | Inr message \<Rightarrow>
                    Inr (message,
                         map (\<lambda>url. \<lparr>du_display_name = ue_display_name url,
                                      du_short_url = ue_short_url url\<rparr>)
                             (pg_urls urlsForProspect))))"

text \<open>
  The loop over the prospects with its state: the results so far and the two counters.
\<close>

fun messages_loop ::
  "templates \<Rightarrow> grouped \<Rightarrow> string prospect list
     \<Rightarrow> string prospect_message list \<times> nat \<times> nat \<Rightarrow> string prospect_message list \<times> nat \<times> nat" where
  "messages_loop tmpl groupedUrls [] state = state"
| "messages_loop tmpl groupedUrls (prospect # rest) (results, successCount, errorCount) =
     (case message_attempt tmpl groupedUrls prospect of
        Inr (message, urls) \<Rightarrow>
          messages_loop tmpl groupedUrls rest
            (results @ [with_message prospect message urls], successCount + 1, errorCount)
      | Inl error \<Rightarrow>
          messages_loop tmpl groupedUrls rest
            (results @ [with_message prospect
                          (''ERROR: Could not generate message - '' @ message_of error) []],
             successCount, errorCount + 1))"

text \<open>The templates are read from the configuration file before the loop starts.\<close>

definition generateWhatsAppMessages ::
  "templates \<Rightarrow> string prospect list \<Rightarrow> grouped \<Rightarrow> string prospect_message list" where
  "generateWhatsAppMessages tmpl prospects groupedUrls =
     fst (messages_loop tmpl groupedUrls prospects ([], 0, 0))"

text \<open>What the loop appends for one prospect.\<close>

definition render_one :: "templates \<Rightarrow> grouped \<Rightarrow> string prospect \<Rightarrow> string prospect_message" where
  "render_one tmpl groupedUrls prospect =
     (case message_attempt tmpl groupedUrls prospect of
        Inr (message, urls) \<Rightarrow> with_message prospect message urls
      | Inl error \<Rightarrow>
          with_message prospect (''ERROR: Could not generate message - '' @ message_of error) [])"

text \<open>
  The message as the specification words it, for a given link section: the non-empty parts
  among greeting, introduction and link section, joined with a blank line (two line
  feeds) between them. The link section as it words it: the lines joined by a line feed.
\<close>

definition claimed_message :: "string \<Rightarrow> string \<Rightarrow> string \<Rightarrow> string" where
  "claimed_message greeting intro link_section =
     join_with [CHR 0x0A, CHR 0x0A]
       (filter (\<lambda>part. part \<noteq> []) [greeting, intro, link_section])"

definition claimed_lines :: "string list \<Rightarrow> string" where
  "claimed_lines ls = join_with [CHR 0x0A] ls"

text \<open>
  The template of the introduction: the category's override when the category has one
  that is not empty, the default otherwise.
\<close>

definition intro_template :: "templates \<Rightarrow> string \<Rightarrow> string option" where
  "intro_template tmpl business_type =
     (case (business_type_customization tmpl, whatsapp tmpl) of
        (Some cz, Some base) \<Rightarrow>
          (case cz business_type of
             Some c \<Rightarrow> (case cz_intro c of
                         Some ov \<Rightarrow> if ov \<noteq> [] then Some ov else t_intro base
                       | None \<Rightarrow> t_intro base)
           | None \<Rightarrow> t_intro base)
      | _ \<Rightarrow> None)"

text \<open>
  The header a link section may open with: the category's override when it has one that
  is not empty, the default otherwise.
\<close>

definition header_template :: "templates \<Rightarrow> string \<Rightarrow> string option" where
  "header_template tmpl business_type =
     (case (business_type_customization tmpl, whatsapp tmpl) of
        (Some cz, Some base) \<Rightarrow>
          (case cz business_type of
             Some c \<Rightarrow> (case cz_demo_section_header c of
                         Some ov \<Rightarrow> if ov \<noteq> [] then Some ov else t_demo_section_header base
                       | None \<Rightarrow> t_demo_section_header base)
           | None \<Rightarrow> t_demo_section_header base)
      | _ \<Rightarrow> None)"

text \<open>
  Substitution as the specification words it: every occurrence of the literal token, from
  left to right, replaced by the literal value.
\<close>

fun literal_scan :: "string \<Rightarrow> string \<Rightarrow> nat \<Rightarrow> string \<Rightarrow> string" where
  "literal_scan pat v skip [] = []"
| "literal_scan pat v (Suc k) (c # cs) = literal_scan pat v k cs"
| "literal_scan pat v 0 (c # cs) =
     (if take (length pat) (c # cs) = pat
      then v @ literal_scan pat v (length pat - 1) cs
      else c # literal_scan pat v 0 cs)"

definition literal_replace_all :: "string \<Rightarrow> string \<Rightarrow> string \<Rightarrow> string" where
  "literal_replace_all pat v s = literal_scan pat v 0 s"

section \<open>Example inputs\<close>

definition example_mapping :: url_mapping where
  "example_mapping =
     \<lparr>um_original_url = ''https://plumbing-client-2.netlify.app/?company=Acme&city=Austin&phone=5551234567'',
      um_metadata = \<lparr>md_prospect_id = ''prospect_0001'', md_business_type = ''plumbing'',
                     md_site_index = 0, md_site_display_name = ''Emergency Services Demo'',
                     md_company = ''Acme''\<rparr>\<rparr>"

definition error_503 :: caught_error where
  "error_503 = \<lparr>err_code = Some ''ERR_BAD_RESPONSE'',
                 err_message = Some ''Request failed with status code 503'',
                 err_status = Some 503\<rparr>"

definition shortened :: "request_entry \<Rightarrow> shorten_result" where
  "shortened r =
     \<lparr>sr_success = True, sr_original_url = rq_original_url r,
      sr_data = Some \<lparr>shortUrl = ''https://websites-links.netlify.app/a1b2c3'', shortCode = ''a1b2c3'',
                      originalUrl = rq_original_url r, expiresAt = 0\<rparr>,
      sr_error = None, sr_metadata = None, sr_fallback = False\<rparr>"

text \<open>A service that answers 503 twice and then shortens every link.\<close>

definition net_503_twice :: network where
  "net_503_twice attempt req =
     (if attempt < 3 then Rejected error_503
      else Resolved (Some \<lparr>rd_success = True, rd_results = Some (map shortened req),
                           rd_error = None\<rparr>))"

text \<open>A group of one link, and a successful result for it whose short URL is empty.\<close>

definition example_link :: url_entry where
  "example_link =
     \<lparr>ue_original_url = um_original_url example_mapping,
      ue_display_name = ''Emergency Services Demo'', ue_site_index = 0, ue_short_url = None\<rparr>"

definition example_groups :: grouped where
  "example_groups =
     [(''prospect_0001'',
       \<lparr>pg_prospect_id = ''prospect_0001'', pg_company = ''Acme'', pg_business_type = ''plumbing'',
        pg_urls = [example_link]\<rparr>)]"

definition empty_short_result :: shorten_result where
  "empty_short_result =
     \<lparr>sr_success = True, sr_original_url = um_original_url example_mapping,
      sr_data = Some \<lparr>shortUrl = '''', shortCode = '''', originalUrl = um_original_url example_mapping,
                      expiresAt = 0\<rparr>,
      sr_error = None, sr_metadata = None, sr_fallback = False\<rparr>"

text \<open>
  A platform that parses the one configured base URL, with an encoder that is enough
  for names and values made of unreserved characters; one plumbing site; one prospect.
\<close>

definition example_platform :: url_platform where
  "example_platform =
     \<lparr>url_parse = (\<lambda>s. if s = ''https://plumbing-client-2.netlify.app''
                         then Some \<lparr>url_prefix = ''https://plumbing-client-2.netlify.app/'',
                                    url_params = [], url_fragment = ''''\<rparr>
                         else None),
      url_encode = (\<lambda>s. s)\<rparr>"

definition example_config :: "string \<rightharpoonup> business_type_config" where
  "example_config =
     [''plumbing'' \<mapsto> \<lparr>sites = Some [\<lparr>site_url = ''https://plumbing-client-2.netlify.app'',
                                        site_display_name = ''Emergency Services Demo''\<rparr>]\<rparr>]"

definition example_prospect :: "string prospect" where
  "example_prospect =
     \<lparr>p_id = ''prospect_0001'', p_company = ''Acme'', p_city = ''Austin'',
      p_phone = ''5551234567'', p_business_type = ''plumbing'', p_original_row = 1\<rparr>"

text \<open>
  Templates with a default header and a plumbing override of it; the example group after
  the join; a second prospect without a group; a prospect whose company name holds two
  dollar signs.
\<close>

definition example_templates :: templates where
  "example_templates =
     \<lparr>whatsapp = Some \<lparr>t_greeting = Some ''Hi {company}!'',
                        t_intro = Some ''I noticed you are a {business_type} business in {city}.'',
                        t_demo_section_header = Some ''Demo sites:'',
                        t_demo_link_format = Some ''- {display_name}: {short_url}''\<rparr>,
      business_type_customization =
        Some [''plumbing'' \<mapsto> \<lparr>cz_intro = None,
                                  cz_demo_section_header = Some ''Professional Plumbing Sites:''\<rparr>]\<rparr>"

definition example_joined_link :: url_entry where
  "example_joined_link = example_link\<lparr>ue_short_url := Some ''https://websites-links.netlify.app/a1b2c3''\<rparr>"

definition example_joined :: grouped where
  "example_joined =
     [(''prospect_0001'',
       \<lparr>pg_prospect_id = ''prospect_0001'', pg_company = ''Acme'', pg_business_type = ''plumbing'',
        pg_urls = [example_joined_link]\<rparr>)]"

definition example_message :: string where
  "example_message =
     ''Hi Acme!'' @ part_sep @ ''I noticed you are a plumbing business in Austin.'' @ part_sep
       @ ''- Emergency Services Demo: https://websites-links.netlify.app/a1b2c3''"

definition example_prospect_2 :: "string prospect" where
  "example_prospect_2 =
     \<lparr>p_id = ''prospect_0002'', p_company = ''Green Thumb'', p_city = ''Phoenix'',
      p_phone = ''6025559876'', p_business_type = ''landscaping'', p_original_row = 2\<rparr>"

text \<open>
  Templates whose default introduction is blank and whose landscaping category overrides
  it; a second link; the messages of the plumbing and of the landscaping prospect under
  these templates.
\<close>

definition override_templates :: templates where
  "override_templates =
     \<lparr>whatsapp = Some \<lparr>t_greeting = Some ''Hi {company}!'',
                        t_intro = Some ''   '',
                        t_demo_section_header = Some ''Demo sites:'',
                        t_demo_link_format = Some ''- {display_name}: {short_url}''\<rparr>,
      business_type_customization =
        Some [''landscaping'' \<mapsto> \<lparr>cz_intro = Some ''Gardens in {city} deserve a modern site.'',
                                     cz_demo_section_header = None\<rparr>]\<rparr>"

definition second_link :: url_entry where
  "second_link =
     \<lparr>ue_original_url = ''https://plumbing-client-3.netlify.app/?company=Acme&city=Austin&phone=5551234567'',
      ue_display_name = ''Modern Design Example'', ue_site_index = 1,
      ue_short_url = Some ''https://websites-links.netlify.app/d4e5f6''\<rparr>"

definition two_lines :: "string list" where
  "two_lines =
     [''- Emergency Services Demo: https://websites-links.netlify.app/a1b2c3'',
      ''- Modern Design Example: https://websites-links.netlify.app/d4e5f6'']"

definition blank_intro_message :: string where
  "blank_intro_message = ''Hi Acme!'' @ part_sep @ two_lines ! 0 @ line_sep @ two_lines ! 1"

definition override_message :: string where
  "override_message =
     ''Hi Green Thumb!'' @ part_sep @ ''Gardens in Phoenix deserve a modern site.'' @ part_sep
       @ two_lines ! 0 @ line_sep @ two_lines ! 1"

definition dollar_prospect :: "string prospect" where
  "dollar_prospect = example_prospect\<lparr>p_company := ''Save$$ Plumbing''\<rparr>"

text \<open>
  A row whose business type cell is blank, and a row whose business type cell is the
  word \<open>constructor\<close>.
\<close>

definition blank_type_row :: raw_row where
  "blank_type_row =
     [''company'' \<mapsto> ''Quick Fix'', ''city'' \<mapsto> ''Denver'', ''phone'' \<mapsto> ''303-555-0123'',
      ''business_type'' \<mapsto> '''']"

definition constructor_row :: raw_row where
  "constructor_row =
     [''company'' \<mapsto> ''Quick Fix'', ''city'' \<mapsto> ''Denver'', ''phone'' \<mapsto> ''303-555-0123'',
      ''business_type'' \<mapsto> ''constructor'']"

section \<open>Properties of the Link Shortener Client\<close>

lemma bulk_attempts_unroll:
  "bulk_attempts net req 1 None =
     (case attempt_result (net 1 req) of
        Inr r \<Rightarrow> (schedule RETRY_DELAY 1, Inr r)
      | Inl e1 \<Rightarrow>
          if isRetryable e1 then
            (case attempt_result (net 2 req) of
               Inr r \<Rightarrow> (schedule RETRY_DELAY 2, Inr r)
             | Inl e2 \<Rightarrow>
                 if isRetryable e2 then
                   (case attempt_result (net 3 req) of
                      Inr r \<Rightarrow> (schedule RETRY_DELAY 3, Inr r)
                    | Inl e3 \<Rightarrow> (schedule RETRY_DELAY 3, Inl (bulk_failed (Some e3))))
                 else (schedule RETRY_DELAY 2, Inl (bulk_failed (Some e2))))
          else (schedule RETRY_DELAY 1, Inl (bulk_failed (Some e1))))"
  by (simp add: MAX_RETRIES_def schedule_def numeral_2_eq_2 numeral_3_eq_3 split: sum.splits)

lemma attempts_made_schedule:
  "attempts_made (schedule d 1) = 1"
  "attempts_made (schedule d 2) = 2"
  "attempts_made (schedule d 3) = 3"
  by (simp_all add: attempts_made_def schedule_def numeral_2_eq_2 numeral_3_eq_3)

lemma bulk_failed_message:
  "bulk_failed (Some e) = Error (''Bulk upload failed: '' @ js_or (err_message e) ''Unknown error'')"
  by (simp add: bulk_failed_def)

lemma js_or_suffix: "suffix m (js_or (Some m) d)"
  by (simp add: js_or_def)

lemma RETRY_DELAY_value: "RETRY_DELAY = 2000"
  by (simp add: RETRY_DELAY_def)

text \<open>
  The run of the retry loop on a non-empty batch, by cases on the outcome of each
  attempt in turn. \<open>k\<close> is the number of requests sent.
\<close>

lemma bulk_upload_trace:
  assumes "ms \<noteq> []"
  shows "case bulkUploadToShortener net (Some ms) of (evs, res) \<Rightarrow>
     (let k = attempts_made evs; req = bulkRequest ms in
        1 \<le> k \<and> k \<le> 3 \<and> evs = schedule 2000 k
      \<and> (\<forall>i. 1 \<le> i \<and> i < k \<longrightarrow> (\<exists>e. attempt_result (net i req) = Inl e \<and> isRetryable e))
      \<and> (\<forall>i e. 1 \<le> i \<and> i \<le> k \<and> i < 3 \<and> attempt_result (net i req) = Inl e
            \<longrightarrow> (if isRetryable e then i < k else k = i))
      \<and> (\<forall>rs. res = Inr rs \<longleftrightarrow> attempt_result (net k req) = Inr rs)
      \<and> (\<forall>err. res = Inl err \<longrightarrow>
            (\<exists>e. attempt_result (net k req) = Inl e
               \<and> err = Error (''Bulk upload failed: '' @ js_or (err_message e) ''Unknown error'')
               \<and> (\<forall>m. err_message e = Some m \<longrightarrow> suffix m (message_of err)))))"
proof -
  let ?req = "bulkRequest ms"
  have run: "bulkUploadToShortener net (Some ms) = bulk_attempts net ?req 1 None"
    using assms by (simp add: bulkUploadToShortener_def del: bulk_attempts.simps)
  have two: "i = 1 \<or> i = 2" if "1 \<le> i" "i < 3" for i :: nat
    using that by arith
  have one: "i = 1" if "1 \<le> i" "i < 2" for i :: nat
    using that by arith
  note unroll = Let_def run bulk_attempts_unroll attempts_made_schedule
    RETRY_DELAY_value [symmetric] bulk_failed_message
  show ?thesis
  proof (cases "attempt_result (net 1 ?req)")
    case (Inr r)
    then show ?thesis
      by (auto simp: unroll simp del: bulk_attempts.simps One_nat_def)
  next
    case e1: (Inl e1)
    show ?thesis
    proof (cases "isRetryable e1")
      case False
      with e1 show ?thesis
        by (auto simp: unroll simp del: bulk_attempts.simps One_nat_def append.simps
            intro: suffix_appendI js_or_suffix)
    next
      case r1: True
      show ?thesis
      proof (cases "attempt_result (net 2 ?req)")
        case (Inr r)
        with e1 r1 show ?thesis
          by (auto simp: unroll simp del: bulk_attempts.simps One_nat_def dest!: one two)
      next
        case e2: (Inl e2)
        show ?thesis
        proof (cases "isRetryable e2")
          case False
          with e1 r1 e2 show ?thesis
            by (auto simp: unroll simp del: bulk_attempts.simps One_nat_def append.simps
                dest!: one two intro: suffix_appendI js_or_suffix)
        next
          case r2: True
          show ?thesis
          proof (cases "attempt_result (net 3 ?req)")
            case (Inr r)
            with e1 r1 e2 r2 show ?thesis
              by (auto simp: unroll simp del: bulk_attempts.simps One_nat_def dest!: two)
          next
            case (Inl e3)
            with e1 r1 e2 r2 show ?thesis
              by (auto simp: unroll simp del: bulk_attempts.simps One_nat_def append.simps
                  dest!: two intro: suffix_appendI js_or_suffix)
          qed
        qed
      qed
    qed
  qed
qed

text \<open>
  The classes of retryable errors. An HTTP status code is at most 599, and on such a
  code the test \<^verbatim>\<open>status >= 500\<close> of the source is the test for the class 5xx.
\<close>

lemma isRetryable_classes:
  assumes "\<forall>s. err_status e = Some s \<longrightarrow> s \<le> 599"
  shows "isRetryable e \<longleftrightarrow>
           (err_code e = Some ''ECONNRESET'' \<or> err_code e = Some ''ENOTFOUND''
              \<or> err_code e = Some ''ETIMEDOUT'')
         \<or> (\<exists>m. err_message e = Some m \<and> sublist ''timeout'' m)
         \<or> (\<exists>s. err_status e = Some s \<and> (s div 100 = 5 \<or> s = 429))"
proof (cases "err_status e")
  case None
  then show ?thesis by (auto simp: isRetryable_def split: option.splits)
next
  case (Some s)
  with assms have "s \<le> 599" by simp
  then have "500 \<le> s \<longleftrightarrow> s div 100 = 5" by arith
  with Some show ?thesis by (auto simp: isRetryable_def split: option.splits)
qed

lemma attempts_at_most_three:
  "attempts_made (fst (bulkUploadToShortener net input)) \<le> 3"
proof (cases input)
  case None
  then show ?thesis by (simp add: bulkUploadToShortener_def attempts_made_def)
next
  case (Some ms)
  show ?thesis
  proof (cases "ms = []")
    case True
    with Some show ?thesis by (simp add: bulkUploadToShortener_def attempts_made_def)
  next
    case False
    from bulk_upload_trace [OF False, of net] Some show ?thesis
      by (auto simp: Let_def split: prod.splits)
  qed
qed

text \<open>
  C1. No bulk shortening call sends more than 3 requests. A call on a non-empty batch
  sends \<open>k\<close> requests with \<open>1 \<le> k \<le> 3\<close>, numbered in order, and waits exactly
  2000 ms between two consecutive requests and nowhere else. Every attempt before the
  last one made failed with a retryable error; a failed attempt before the third is
  followed by another one exactly when its error is retryable, and otherwise ends the
  call at once. The call returns the results of the last attempt made when that one
  succeeds; when it fails the call raises \<open>Bulk upload failed:\<close> followed by the
  message of that last error, which the raised message therefore ends with. An error is
  retryable exactly when its code is ECONNRESET, ENOTFOUND or ETIMEDOUT, or its message
  contains \<open>timeout\<close>, or its HTTP status is of the class 5xx or is 429.
\<close>

theorem retry_policy:
  assumes "ms \<noteq> []"
  shows "(case bulkUploadToShortener net (Some ms) of (evs, res) \<Rightarrow>
     (let k = attempts_made evs; req = bulkRequest ms in
        1 \<le> k \<and> k \<le> 3 \<and> evs = schedule 2000 k
      \<and> (\<forall>i. 1 \<le> i \<and> i < k \<longrightarrow> (\<exists>e. attempt_result (net i req) = Inl e \<and> isRetryable e))
      \<and> (\<forall>i e. 1 \<le> i \<and> i \<le> k \<and> i < 3 \<and> attempt_result (net i req) = Inl e
            \<longrightarrow> (if isRetryable e then i < k else k = i))
      \<and> (\<forall>rs. res = Inr rs \<longleftrightarrow> attempt_result (net k req) = Inr rs)
      \<and> (\<forall>err. res = Inl err \<longrightarrow>
            (\<exists>e. attempt_result (net k req) = Inl e
               \<and> err = Error (''Bulk upload failed: '' @ js_or (err_message e) ''Unknown error'')
               \<and> (\<forall>m. err_message e = Some m \<longrightarrow> suffix m (message_of err))))))
   \<and> (\<forall>e. (\<forall>s. err_status e = Some s \<longrightarrow> s \<le> 599) \<longrightarrow>
          (isRetryable e \<longleftrightarrow>
             (err_code e = Some ''ECONNRESET'' \<or> err_code e = Some ''ENOTFOUND''
                \<or> err_code e = Some ''ETIMEDOUT'')
           \<or> (\<exists>m. err_message e = Some m \<and> sublist ''timeout'' m)
           \<or> (\<exists>s. err_status e = Some s \<and> (s div 100 = 5 \<or> s = 429))))
   \<and> attempts_made (fst (bulkUploadToShortener net input)) \<le> 3"
  using bulk_upload_trace [OF assms, of net] isRetryable_classes attempts_at_most_three
  by blast

theorem retry_policy_witness:
  "[example_mapping] \<noteq> []
   \<and> (case bulkUploadToShortener net_503_twice (Some [example_mapping]) of (evs, res) \<Rightarrow>
        attempts_made evs = 3
      \<and> evs = [Post 1, Sleep 2000, Post 2, Sleep 2000, Post 3]
      \<and> res = Inr (map shortened (bulkRequest [example_mapping])))
   \<and> isRetryable error_503"
proof -
  have ne: "[example_mapping] \<noteq> []" by simp
  have r: "isRetryable error_503"
    by (simp add: isRetryable_def error_503_def)
  have a: "attempt_result (net_503_twice i req) = (if i < 3 then Inl error_503 else Inr (map shortened req))"
    for i req
    by (simp add: attempt_result_def net_503_twice_def)
  obtain evs res where run: "bulkUploadToShortener net_503_twice (Some [example_mapping]) = (evs, res)"
    by (cases "bulkUploadToShortener net_503_twice (Some [example_mapping])")
  from retry_policy [OF ne, of net_503_twice] run
  have k3: "attempts_made evs \<le> 3" and ev: "evs = schedule 2000 (attempts_made evs)"
    and retry: "\<forall>i e. 1 \<le> i \<and> i \<le> attempts_made evs \<and> i < 3
                  \<and> attempt_result (net_503_twice i (bulkRequest [example_mapping])) = Inl e
                  \<longrightarrow> (if isRetryable e then i < attempts_made evs else attempts_made evs = i)"
    and k1: "1 \<le> attempts_made evs"
    and ok: "\<forall>rs. res = Inr rs \<longleftrightarrow>
               attempt_result (net_503_twice (attempts_made evs) (bulkRequest [example_mapping])) = Inr rs"
    by (simp_all add: Let_def)
  from retry [rule_format, of 1 error_503] k1 r a have "1 < attempts_made evs" by simp
  with retry [rule_format, of 2 error_503] r a have "2 < attempts_made evs" by simp
  with k3 have k: "attempts_made evs = 3" by simp
  with ev have "evs = [Post 1, Sleep 2000, Post 2, Sleep 2000, Post 3]"
    by (simp add: schedule_def numeral_3_eq_3)
  moreover from ok k a have "res = Inr (map shortened (bulkRequest [example_mapping]))" by simp
  ultimately show ?thesis using ne r k run by simp
qed

text \<open>
  C10. Given an absent or an empty list of mappings, the client raises
  \<open>No URL mappings provided for bulk upload\<close> with no request sent and no delay waited:
  it makes no attempt, retries nothing and returns no results, fallback or other.
\<close>

theorem empty_batch_rejected:
  "bulkUploadToShortener net None = ([], Inl (Error ''No URL mappings provided for bulk upload''))
   \<and> bulkUploadToShortener net (Some []) = ([], Inl (Error ''No URL mappings provided for bulk upload''))"
  by (simp add: bulkUploadToShortener_def)

lemma createFallbackResults_nth:
  assumes "i < length ms"
  shows "createFallbackResults clock ms ! i =
           \<lparr>sr_success = True,
            sr_original_url = um_original_url (ms ! i),
            sr_data = Some \<lparr>shortUrl = um_original_url (ms ! i),
                            shortCode = ''original'',
                            originalUrl = um_original_url (ms ! i),
                            expiresAt = clock i + 14 * 24 * 60 * 60 * 1000\<rparr>,
            sr_error = None,
            sr_metadata = Some (um_metadata (ms ! i)),
            sr_fallback = True\<rparr>"
  using assms by (simp add: createFallbackResults_def nth_enumerate_eq)

text \<open>
  C2. In fallback mode, that is when shortening is skipped by configuration, or the
  connectivity probe fails, or the bulk upload raises, the results handed on are the
  fallback results: one per input mapping, in order, each with \<open>success\<close> true,
  \<open>fallback\<close> true, the mapping's \<open>original_url\<close> as its join key and as its
  \<open>data.shortUrl\<close>.
\<close>

theorem fallback_mode:
  assumes "skipShortener \<or> \<not> testShortenerConnection probe
             \<or> (\<exists>e. snd (bulkUploadToShortener net (Some ms)) = Inl e)"
  shows "let rs = shortenStep skipShortener probe net clock ms in
           rs = createFallbackResults clock ms \<and> length rs = length ms
         \<and> (\<forall>i<length ms.
               sr_success (rs ! i) \<and> sr_fallback (rs ! i)
             \<and> sr_original_url (rs ! i) = um_original_url (ms ! i)
             \<and> (\<exists>d. sr_data (rs ! i) = Some d \<and> shortUrl d = um_original_url (ms ! i)))"
proof -
  have "shortenStep skipShortener probe net clock ms = createFallbackResults clock ms"
    using assms by (auto simp: shortenStep_def)
  moreover have "length (createFallbackResults clock ms) = length ms"
    by (simp add: createFallbackResults_def)
  ultimately show ?thesis
    by (simp add: createFallbackResults_nth)
qed

theorem fallback_mode_witness:
  "\<not> testShortenerConnection (ProbeStatus 503)
   \<and> (let rs = shortenStep False (ProbeStatus 503) net_503_twice (\<lambda>i. 0) [example_mapping] in
        length rs = 1 \<and> sr_success (rs ! 0) \<and> sr_fallback (rs ! 0)
      \<and> sr_original_url (rs ! 0) = um_original_url example_mapping
      \<and> (\<exists>d. sr_data (rs ! 0) = Some d \<and> shortUrl d = um_original_url example_mapping))"
proof -
  have p: "\<not> testShortenerConnection (ProbeStatus 503)"
    by (simp add: testShortenerConnection_def)
  then have "False \<or> \<not> testShortenerConnection (ProbeStatus 503)
      \<or> (\<exists>e. snd (bulkUploadToShortener net_503_twice (Some [example_mapping])) = Inl e)"
    by simp
  from fallback_mode [OF this, of "\<lambda>i. 0"] p show ?thesis
    by (auto simp: Let_def)
qed

section \<open>Properties of the Link Generator\<close>

lemma sites_forEach_Inr:
  assumes "sites_forEach pl prospect index ss = Inr ms"
  shows "length ms = length ss
       \<and> (\<forall>i<length ss. \<exists>url. url_parse pl (site_url (ss ! i)) = Some url
                              \<and> ms ! i = mapping_for pl prospect (index + i) (ss ! i) url)"
  using assms
proof (induction ss arbitrary: index ms)
  case Nil
  then show ?case by simp
next
  case (Cons s ss)
  from Cons.prems obtain u ms' where
    u: "createPersonalizedUrl pl (site_url s) (p_company prospect) (p_city prospect) (p_phone prospect) = Inr u"
    and rest: "sites_forEach pl prospect (index + 1) ss = Inr ms'"
    and ms: "ms = \<lparr>um_original_url = u,
                    um_metadata = \<lparr>md_prospect_id = p_id prospect,
                                   md_business_type = p_business_type prospect,
                                   md_site_index = index,
                                   md_site_display_name = site_display_name s,
                                   md_company = p_company prospect\<rparr>\<rparr> # ms'"
    by (auto split: sum.splits)
  from u obtain url where url: "url_parse pl (site_url s) = Some url"
    and u_eq: "u = url_toString pl (url\<lparr>url_params :=
          personalize (p_company prospect) (p_city prospect) (p_phone prospect) (url_params url)\<rparr>)"
    by (auto simp: createPersonalizedUrl_def split: option.splits)
  from Cons.IH [OF rest] have len: "length ms' = length ss"
    and nth: "\<And>i. i < length ss \<Longrightarrow> \<exists>url. url_parse pl (site_url (ss ! i)) = Some url
                    \<and> ms' ! i = mapping_for pl prospect (index + 1 + i) (ss ! i) url"
    by auto
  show ?case
  proof (intro conjI allI impI)
    show "length ms = length (s # ss)" using ms len by simp
  next
    fix i assume "i < length (s # ss)"
    show "\<exists>url. url_parse pl (site_url ((s # ss) ! i)) = Some url
                 \<and> ms ! i = mapping_for pl prospect (index + i) ((s # ss) ! i) url"
    proof (cases i)
      case 0
      with url u_eq ms show ?thesis by (simp add: mapping_for_def)
    next
      case (Suc j)
      with \<open>i < length (s # ss)\<close> have "j < length ss" by simp
      from nth [OF this] Suc ms show ?thesis by simp
    qed
  qed
qed

lemma generateDemoUrls_loop_concat:
  "generateDemoUrls_loop pl cfg ps (acc, n) =
     (acc @ concat (map (\<lambda>p. case generateUrlsForProspect pl p cfg of Inr ms \<Rightarrow> ms | Inl e \<Rightarrow> []) ps),
      n + length (concat (map (\<lambda>p. case generateUrlsForProspect pl p cfg of Inr ms \<Rightarrow> ms | Inl e \<Rightarrow> []) ps)))"
  by (induction ps arbitrary: acc n) (auto split: sum.splits)

lemma generateDemoUrls_concat:
  "generateDemoUrls pl cfg ps =
     concat (map (\<lambda>p. case generateUrlsForProspect pl p cfg of Inr ms \<Rightarrow> ms | Inl e \<Rightarrow> []) ps)"
  by (simp add: generateDemoUrls_def generateDemoUrls_loop_concat)

lemma generateDemoUrls_loop_state:
  "generateDemoUrls_loop pl cfg ps (acc, n) =
     (acc @ generateDemoUrls pl cfg ps, n + length (generateDemoUrls pl cfg ps))"
  by (simp only: generateDemoUrls_concat generateDemoUrls_loop_concat)

lemma generateDemoUrls_append:
  "generateDemoUrls pl cfg (ps @ qs) = generateDemoUrls pl cfg ps @ generateDemoUrls pl cfg qs"
  by (simp add: generateDemoUrls_concat)

text \<open>
  C8. The Link Generator is a function of the prospect and the configuration alone.
  When it returns, it returns one mapping per configured site, in configured order: the
  mapping at position \<open>i\<close> carries \<open>site_index = i\<close> and the URL built from the
  \<open>i\<close>-th site's base URL and the prospect's company, city and phone. The batch loop
  appends these mappings to whatever it has accumulated, so what it generates for a
  prospect does not depend on the loop's state, and generating for the same prospects a
  second time in the same run yields the same sequence again.
\<close>

theorem link_generation_deterministic:
  "(\<forall>ms. generateUrlsForProspect pl prospect businessConfig = Inr ms \<longrightarrow>
      (\<exists>c ss. businessConfig (p_business_type prospect) = Some c \<and> sites c = Some ss \<and> ss \<noteq> []
         \<and> length ms = length ss
         \<and> (\<forall>i<length ss. \<exists>url. url_parse pl (site_url (ss ! i)) = Some url
                                \<and> ms ! i = mapping_for pl prospect i (ss ! i) url)))
   \<and> generateDemoUrls_loop pl businessConfig prospects (urlMappings, totalUrls) =
       (urlMappings @ generateDemoUrls pl businessConfig prospects,
        totalUrls + length (generateDemoUrls pl businessConfig prospects))
   \<and> generateDemoUrls pl businessConfig [prospect] =
       (case generateUrlsForProspect pl prospect businessConfig of Inr ms \<Rightarrow> ms | Inl e \<Rightarrow> [])
   \<and> generateDemoUrls pl businessConfig (prospects @ prospects) =
       generateDemoUrls pl businessConfig prospects @ generateDemoUrls pl businessConfig prospects"
proof (intro conjI allI impI)
  fix ms assume "generateUrlsForProspect pl prospect businessConfig = Inr ms"
  then obtain c ss where c: "businessConfig (p_business_type prospect) = Some c"
    and ss: "sites c = Some ss" "ss \<noteq> []" and run: "sites_forEach pl prospect 0 ss = Inr ms"
    by (auto simp: generateUrlsForProspect_def Let_def split: option.splits if_splits)
  from sites_forEach_Inr [OF run] c ss
  show "\<exists>c ss. businessConfig (p_business_type prospect) = Some c \<and> sites c = Some ss \<and> ss \<noteq> []
         \<and> length ms = length ss
         \<and> (\<forall>i<length ss. \<exists>url. url_parse pl (site_url (ss ! i)) = Some url
                                \<and> ms ! i = mapping_for pl prospect i (ss ! i) url)"
    by auto
next
  show "generateDemoUrls_loop pl businessConfig prospects (urlMappings, totalUrls) =
       (urlMappings @ generateDemoUrls pl businessConfig prospects,
        totalUrls + length (generateDemoUrls pl businessConfig prospects))"
    by (rule generateDemoUrls_loop_state)
next
  show "generateDemoUrls pl businessConfig [prospect] =
       (case generateUrlsForProspect pl prospect businessConfig of Inr ms \<Rightarrow> ms | Inl e \<Rightarrow> [])"
    by (simp add: generateDemoUrls_concat)
next
  show "generateDemoUrls pl businessConfig (prospects @ prospects) =
       generateDemoUrls pl businessConfig prospects @ generateDemoUrls pl businessConfig prospects"
    by (rule generateDemoUrls_append)
qed

theorem link_generation_deterministic_witness:
  "generateUrlsForProspect example_platform example_prospect example_config = Inr [example_mapping]
   \<and> url_parse example_platform ''https://plumbing-client-2.netlify.app'' \<noteq> None
   \<and> generateDemoUrls example_platform example_config ([example_prospect] @ [example_prospect])
       = [example_mapping, example_mapping]"
proof -
  have e: "generateUrlsForProspect example_platform example_prospect example_config = Inr [example_mapping]"
    by (simp add: generateUrlsForProspect_def example_platform_def example_prospect_def
        example_config_def example_mapping_def createPersonalizedUrl_def url_toString_def
        personalize_def)
  note inst = link_generation_deterministic
         [of example_platform example_prospect example_config "[example_prospect]" "[]" 0]
  from inst have once: "generateDemoUrls example_platform example_config [example_prospect] =
       (case generateUrlsForProspect example_platform example_prospect example_config of
          Inr ms \<Rightarrow> ms | Inl e \<Rightarrow> [])"
    by (rule conjunct2 [THEN conjunct2, THEN conjunct1])
  from inst have twice: "generateDemoUrls example_platform example_config ([example_prospect] @ [example_prospect]) =
       generateDemoUrls example_platform example_config [example_prospect]
       @ generateDemoUrls example_platform example_config [example_prospect]"
    by (rule conjunct2 [THEN conjunct2, THEN conjunct2])
  have p: "url_parse example_platform ''https://plumbing-client-2.netlify.app'' \<noteq> None"
    by (simp add: example_platform_def)
  from once e have "generateDemoUrls example_platform example_config [example_prospect] = [example_mapping]"
    by simp
  with twice have "generateDemoUrls example_platform example_config ([example_prospect] @ [example_prospect])
       = [example_mapping, example_mapping]"
    by simp
  with e p show ?thesis by blast
qed

section \<open>Properties of the Result Joiner\<close>

text \<open>The lookup holds, for each key, what the last successful result with data stored.\<close>

lemma urlLookup_foldl:
  "foldl (\<lambda>lk result.
              case sr_data result of
                Some d \<Rightarrow> if sr_success result then lk(sr_original_url result \<mapsto> shortUrl d) else lk
              | None \<Rightarrow> lk) m rs k =
   (case last_shortUrl rs k of Some s \<Rightarrow> Some s | None \<Rightarrow> m k)"
proof (induction rs arbitrary: m)
  case Nil
  show ?case by (simp add: last_shortUrl_def carried_def)
next
  case (Cons r rs)
  show ?case
    by (simp add: Cons.IH) (auto simp: last_shortUrl_def carried_def split: option.splits)
qed

lemma urlLookup_last: "urlLookup rs k = last_shortUrl rs k"
  by (simp add: urlLookup_def urlLookup_foldl split: option.splits)

lemma update_urls_closed:
  "update_urls (urlLookup rs) urls (u, f) =
     (map (join_entry rs) urls,
      (u + length (filter (lookup_hit rs) urls),
       f + length (filter (\<lambda>url. \<not> lookup_hit rs url) urls)))"
  by (induction urls arbitrary: u f)
     (auto simp: urlLookup_last join_entry_def joined_short_url_def lookup_hit_def split: option.splits)

lemma update_groups_closed:
  "update_groups (urlLookup rs) gm (u, f) =
     (map (\<lambda>(pid, g). (pid, g\<lparr>pg_urls := map (join_entry rs) (pg_urls g)\<rparr>)) gm,
      (u + length (filter (lookup_hit rs) (links_of gm)),
       f + length (filter (\<lambda>url. \<not> lookup_hit rs url) (links_of gm))))"
  by (induction gm arbitrary: u f) (auto simp: update_urls_closed links_of_def)

lemma links_of_joined:
  "links_of (map (\<lambda>(pid, g). (pid, g\<lparr>pg_urls := map (join_entry rs) (pg_urls g)\<rparr>)) gm)
     = map (join_entry rs) (links_of gm)"
  by (induction gm) (auto simp: links_of_def)

text \<open>
  C3, as amended. The joiner is a total function: no grouped structure and no list of
  results makes it raise, whatever is missing from the list. It keeps every group and every
  link in place and changes only \<open>short_url\<close>, which it sets for every link to a
  non-null value: the short URL that the last successful result with data for the link's
  original URL carries, when there is such a result and its short URL is not empty, and
  the link's own original URL otherwise. The two counters add up to the number of links,
  and the failure counter counts the links left with their own URL for want of a hit.
  The original URLs of the links are serialised URLs, so none is the name of a member of
  \<^verbatim>\<open>Object.prototype\<close>.
\<close>

theorem joiner_short_urls:
  assumes "\<forall>url \<in> set (links_of gm). ue_original_url url \<notin> set objectPrototypeKeys"
  shows "case updateWithShortUrls gm rs of (gm', updatedCount, failedCount) \<Rightarrow>
           gm' = map (\<lambda>(pid, g). (pid, g\<lparr>pg_urls := map (join_entry rs) (pg_urls g)\<rparr>)) gm
         \<and> links_of gm' = map (\<lambda>url. url\<lparr>ue_short_url := Some (joined_short_url rs url)\<rparr>) (links_of gm)
         \<and> (\<forall>url \<in> set (links_of gm'). ue_short_url url \<noteq> None)
         \<and> updatedCount + failedCount = length (links_of gm)
         \<and> failedCount = length (filter (\<lambda>url. \<not> lookup_hit rs url) (links_of gm))"
proof -
  have "length (filter (lookup_hit rs) xs) + length (filter (\<lambda>url. \<not> lookup_hit rs url) xs) = length xs"
    for xs by (induction xs) auto
  then show ?thesis
    by (auto simp: updateWithShortUrls_def update_groups_closed links_of_joined join_entry_def)
qed

theorem joiner_short_urls_witness:
  "ue_original_url example_link \<notin> set objectPrototypeKeys
   \<and> (case updateWithShortUrls example_groups [shortened (hd (bulkRequest [example_mapping]))] of
        (gm', updatedCount, failedCount) \<Rightarrow>
          map ue_short_url (links_of gm') = [Some ''https://websites-links.netlify.app/a1b2c3'']
        \<and> updatedCount = 1 \<and> failedCount = 0)"
proof -
  have h: "\<forall>url \<in> set (links_of example_groups). ue_original_url url \<notin> set objectPrototypeKeys"
    by (simp add: links_of_def example_groups_def example_link_def example_mapping_def
        objectPrototypeKeys_def)
  from joiner_short_urls [OF h, of "[shortened (hd (bulkRequest [example_mapping]))]"] h
  show ?thesis
    by (simp add: links_of_def example_groups_def example_link_def joined_short_url_def
        last_shortUrl_def carried_def shortened_def bulkRequest_def
        lookup_hit_def split: prod.splits)
qed

text \<open>
  C3 as stated fails where a successful result carries an empty short URL: a
  successful result with the link's original URL exists and the short URL looked up for
  it is the empty string, yet the joiner leaves the link with its own original URL.
\<close>

theorem joiner_counterexample:
  "sr_success empty_short_result
   \<and> sr_original_url empty_short_result = ue_original_url example_link
   \<and> claimed_short_url [empty_short_result] example_link = Some ''''
   \<and> map ue_short_url (links_of (fst (updateWithShortUrls example_groups [empty_short_result])))
       = [Some (ue_original_url example_link)]
   \<and> map ue_short_url (links_of (fst (updateWithShortUrls example_groups [empty_short_result])))
       \<noteq> [claimed_short_url [empty_short_result] example_link]"
  by (simp add: updateWithShortUrls_def urlLookup_def example_groups_def example_link_def
      empty_short_result_def claimed_short_url_def links_of_def example_mapping_def)

section \<open>Properties of the Message Renderer\<close>

lemma messages_loop_map:
  "messages_loop tmpl groupedUrls prospects (results, s, e) =
     (results @ map (render_one tmpl groupedUrls) prospects,
      s + length (filter (\<lambda>p. \<not> isl (message_attempt tmpl groupedUrls p)) prospects),
      e + length (filter (\<lambda>p. isl (message_attempt tmpl groupedUrls p)) prospects))"
  by (induction prospects arbitrary: results s e)
     (auto simp: render_one_def split: sum.splits)

lemma generateWhatsAppMessages_map:
  "generateWhatsAppMessages tmpl prospects groupedUrls = map (render_one tmpl groupedUrls) prospects"
  by (simp add: generateWhatsAppMessages_def messages_loop_map)

lemma message_attempt_Inr:
  assumes "message_attempt tmpl groupedUrls prospect = Inr (m, us)"
  shows "\<exists>g. map_of groupedUrls (p_id prospect) = Some g \<and> pg_urls g \<noteq> []
           \<and> generateMessageForProspect prospect (pg_urls g) tmpl = Inr m
           \<and> us = map (\<lambda>url. \<lparr>du_display_name = ue_display_name url,
                                du_short_url = ue_short_url url\<rparr>) (pg_urls g)"
  using assms by (auto simp: message_attempt_def split: option.splits if_splits sum.splits)

lemma message_attempt_no_urls:
  assumes "map_of groupedUrls (p_id prospect) = None
           \<or> (\<exists>g. map_of groupedUrls (p_id prospect) = Some g \<and> pg_urls g = [])"
  shows "message_attempt tmpl groupedUrls prospect =
           Inl (Error (''No URLs found for prospect '' @ p_id prospect))"
  using assms by (auto simp: message_attempt_def)

text \<open>
  C4. For every list of prospects and every grouped structure the renderer returns
  exactly one record per prospect, in order, with the prospect's own fields. Each record
  holds either the rendered message and the links of the prospect's group, or a message
  that starts with \<open>ERROR:\<close> followed by the reason and an empty link list; the
  second is the case whenever the loop body raises, and in particular when the group is
  absent or has no links. No error of the loop body leaves the renderer.
\<close>

theorem renderer_total:
  "let rs = generateWhatsAppMessages tmpl prospects groupedUrls in
     length rs = length prospects
   \<and> (\<forall>i<length prospects.
         p_id (rs ! i) = p_id (prospects ! i) \<and> p_company (rs ! i) = p_company (prospects ! i)
       \<and> p_city (rs ! i) = p_city (prospects ! i) \<and> p_phone (rs ! i) = p_phone (prospects ! i)
       \<and> p_business_type (rs ! i) = p_business_type (prospects ! i)
       \<and> p_original_row (rs ! i) = p_original_row (prospects ! i)
       \<and> ((\<exists>g m. map_of groupedUrls (p_id (prospects ! i)) = Some g \<and> pg_urls g \<noteq> []
                 \<and> generateMessageForProspect (prospects ! i) (pg_urls g) tmpl = Inr m
                 \<and> whatsapp_message (rs ! i) = m
                 \<and> demo_urls (rs ! i) = map (\<lambda>url. \<lparr>du_display_name = ue_display_name url,
                                                       du_short_url = ue_short_url url\<rparr>) (pg_urls g))
          \<or> (\<exists>e. message_attempt tmpl groupedUrls (prospects ! i) = Inl e
                 \<and> whatsapp_message (rs ! i) = ''ERROR: Could not generate message - '' @ message_of e
                 \<and> prefix ''ERROR:'' (whatsapp_message (rs ! i))
                 \<and> demo_urls (rs ! i) = []))
       \<and> (map_of groupedUrls (p_id (prospects ! i)) = None
            \<or> (\<exists>g. map_of groupedUrls (p_id (prospects ! i)) = Some g \<and> pg_urls g = [])
          \<longrightarrow> whatsapp_message (rs ! i) =
                ''ERROR: Could not generate message - No URLs found for prospect ''
                  @ p_id (prospects ! i)
              \<and> demo_urls (rs ! i) = []))"
proof -
  have one: "p_id r = p_id p \<and> p_company r = p_company p
       \<and> p_city r = p_city p \<and> p_phone r = p_phone p
       \<and> p_business_type r = p_business_type p
       \<and> p_original_row r = p_original_row p
       \<and> ((\<exists>g m. map_of groupedUrls (p_id p) = Some g \<and> pg_urls g \<noteq> []
                 \<and> generateMessageForProspect p (pg_urls g) tmpl = Inr m
                 \<and> whatsapp_message r = m
                 \<and> demo_urls r = map (\<lambda>url. \<lparr>du_display_name = ue_display_name url,
                                                       du_short_url = ue_short_url url\<rparr>) (pg_urls g))
          \<or> (\<exists>e. message_attempt tmpl groupedUrls p = Inl e
                 \<and> whatsapp_message r = ''ERROR: Could not generate message - '' @ message_of e
                 \<and> prefix ''ERROR:'' (whatsapp_message r)
                 \<and> demo_urls r = []))
       \<and> (map_of groupedUrls (p_id p) = None
            \<or> (\<exists>g. map_of groupedUrls (p_id p) = Some g \<and> pg_urls g = [])
          \<longrightarrow> whatsapp_message r =
                ''ERROR: Could not generate message - No URLs found for prospect '' @ p_id p
              \<and> demo_urls r = [])"
    if r: "r = render_one tmpl groupedUrls p" for r p
  proof (cases "message_attempt tmpl groupedUrls p")
    case (Inl e)
    have "map_of groupedUrls (p_id p) = None
            \<or> (\<exists>g. map_of groupedUrls (p_id p) = Some g \<and> pg_urls g = [])
          \<Longrightarrow> e = Error (''No URLs found for prospect '' @ p_id p)"
      using message_attempt_no_urls [of groupedUrls p tmpl] Inl by simp
    with Inl r show ?thesis
      by (auto simp: render_one_def with_message_def)
  next
    case (Inr mu)
    obtain m us where mu: "mu = (m, us)" by (cases mu)
    from message_attempt_Inr [OF Inr [unfolded mu]] Inr mu r show ?thesis
      by (auto simp: render_one_def with_message_def)
  qed
  show ?thesis
    unfolding Let_def generateWhatsAppMessages_map
    using one by (simp del: append.simps)
qed

lemma example_message_rendered:
  "generateMessageForProspect example_prospect [example_joined_link] example_templates
     = Inr example_message"
  by (simp add: generateMessageForProspect_def example_prospect_def example_joined_link_def
      example_templates_def example_message_def example_link_def render_template_def
      replaceTemplateVariables_def js_replace_all_def js_or_undefined_def short_url_text_def
      nonblank_def js_trim_def is_js_space_def line_sep_def part_sep_def example_mapping_def)

theorem renderer_total_witness:
  "map_of example_joined (p_id example_prospect_2) = None
   \<and> (let rs = generateWhatsAppMessages example_templates [example_prospect, example_prospect_2]
                  example_joined in
        length rs = 2
      \<and> whatsapp_message (rs ! 0) = example_message
      \<and> whatsapp_message (rs ! 1) =
          ''ERROR: Could not generate message - No URLs found for prospect prospect_0002''
      \<and> demo_urls (rs ! 1) = [])"
proof -
  let ?ps = "[example_prospect, example_prospect_2]"
  let ?rs = "generateWhatsAppMessages example_templates ?ps example_joined"
  have none: "map_of example_joined (p_id example_prospect_2) = None"
    by (simp add: example_joined_def example_prospect_2_def)
  have some: "map_of example_joined (p_id example_prospect) =
      Some \<lparr>pg_prospect_id = ''prospect_0001'', pg_company = ''Acme'',
            pg_business_type = ''plumbing'', pg_urls = [example_joined_link]\<rparr>"
    by (simp add: example_joined_def example_prospect_def)
  note inst = renderer_total [of example_templates ?ps example_joined, unfolded Let_def]
  from inst have len: "length ?rs = 2" by simp
  note each = inst [THEN conjunct2, rule_format]
  have "(1::nat) < length ?ps" by simp
  from each [OF this] none
  have second: "whatsapp_message (?rs ! 1) =
        ''ERROR: Could not generate message - No URLs found for prospect prospect_0002''
      \<and> demo_urls (?rs ! 1) = []"
    by (simp add: example_prospect_2_def)
  have attempt: "message_attempt example_templates example_joined example_prospect
      = Inr (example_message, [\<lparr>du_display_name = ue_display_name example_joined_link,
                                 du_short_url = ue_short_url example_joined_link\<rparr>])"
    by (simp add: message_attempt_def some example_message_rendered)
  have "(0::nat) < length ?ps" by simp
  from each [OF this] attempt
  have first: "whatsapp_message (?rs ! 0) = example_message"
    by (auto simp: some example_message_rendered)
  from none len first second show ?thesis
    by (simp add: Let_def)
qed

lemma link_lines_Inr:
  assumes "link_lines fmt urls = Inr ls"
  shows "length ls = length urls
       \<and> (\<forall>j<length urls.
             render_template fmt [(''display_name'', ue_display_name (urls ! j)),
                                  (''short_url'', short_url_text (ue_short_url (urls ! j)))]
               = Inr (ls ! j))"
  using assms
proof (induction urls arbitrary: ls)
  case Nil
  then show ?case by simp
next
  case (Cons url urls)
  from Cons.prems obtain line ls' where
    line: "render_template fmt [(''display_name'', ue_display_name url),
                                (''short_url'', short_url_text (ue_short_url url))] = Inr line"
    and rest: "link_lines fmt urls = Inr ls'" and ls: "ls = line # ls'"
    by (auto split: sum.splits)
  from Cons.IH [OF rest] line ls show ?case
    by (auto simp: nth_Cons split: nat.splits)
qed

text \<open>
  Two renderings under templates whose default introduction is blank and whose
  landscaping category overrides it: the landscaping prospect gets the override, the
  plumbing prospect gets no introduction and no gap in its place.
\<close>

lemma blank_intro_rendered:
  "generateMessageForProspect example_prospect [example_joined_link, second_link] override_templates
     = Inr blank_intro_message"
  by (simp add: generateMessageForProspect_def example_prospect_def example_joined_link_def
      override_templates_def blank_intro_message_def two_lines_def second_link_def
      example_link_def render_template_def
      replaceTemplateVariables_def js_replace_all_def js_or_undefined_def short_url_text_def
      nonblank_def js_trim_def is_js_space_def line_sep_def part_sep_def example_mapping_def)

lemma override_rendered:
  "generateMessageForProspect example_prospect_2 [example_joined_link, second_link] override_templates
     = Inr override_message"
  by (simp add: generateMessageForProspect_def example_prospect_2_def example_joined_link_def
      override_templates_def override_message_def two_lines_def second_link_def
      example_link_def render_template_def
      replaceTemplateVariables_def js_replace_all_def js_or_undefined_def short_url_text_def
      nonblank_def js_trim_def is_js_space_def line_sep_def part_sep_def example_mapping_def)

lemma two_lines_rendered:
  assumes len: "length ls = length [example_joined_link, second_link]"
    and each: "\<forall>j<length [example_joined_link, second_link].
               render_template (Some ''- {display_name}: {short_url}'')
                 [(''display_name'', ue_display_name ([example_joined_link, second_link] ! j)),
                  (''short_url'', short_url_text (ue_short_url ([example_joined_link, second_link] ! j)))]
                = Inr (ls ! j)"
  shows "ls = two_lines"
proof -
  from len obtain a b where ls: "ls = [a, b]"
    by (auto simp: length_Suc_conv)
  from each [rule_format, of 0] have "a = two_lines ! 0"
    by (simp add: ls two_lines_def example_joined_link_def example_link_def render_template_def
        replaceTemplateVariables_def js_replace_all_def short_url_text_def)
  moreover from each [rule_format, of 1] have "b = two_lines ! 1"
    by (simp add: ls two_lines_def second_link_def render_template_def
        replaceTemplateVariables_def js_replace_all_def short_url_text_def)
  ultimately show ?thesis by (simp add: ls two_lines_def)
qed

lemma header_slot:
  assumes "length hs \<le> 1" and "\<forall>h \<in> set hs. Some x = Some h"
  shows "hs = [] \<or> hs = [x]"
  using assms by (cases hs) auto

text \<open>
  C6, as amended. A rendered message is composed of the greeting, the introduction and
  the link section. The greeting is the default greeting with the company filled in.
  The introduction is the category's override of it when the category has a non-empty
  one and the default otherwise, with business type and city filled in. The link
  section ends with the per-link lines, one per link in order, each the link-line
  template with display name and short link filled in; the lines of the section are
  joined by the two characters backslash and \<open>n\<close>. The parts that are not blank are
  joined with that separator twice between them, and blank parts are dropped. Whether
  a header line precedes the per-link lines is left open: the statement allows at most
  one such line, and only the header chosen for the category.
\<close>

theorem message_composition:
  assumes "generateMessageForProspect prospect urls tmpl = Inr message"
  shows "\<exists>base greeting intro ls hs.
           whatsapp tmpl = Some base
         \<and> render_template (t_greeting base) [(''company'', p_company prospect)] = Inr greeting
         \<and> render_template (intro_template tmpl (p_business_type prospect))
               [(''business_type'', p_business_type prospect), (''city'', p_city prospect)] = Inr intro
         \<and> length ls = length urls
         \<and> (\<forall>j<length urls.
               render_template (t_demo_link_format base)
                 [(''display_name'', ue_display_name (urls ! j)),
                  (''short_url'', short_url_text (ue_short_url (urls ! j)))] = Inr (ls ! j))
         \<and> length hs \<le> 1
         \<and> (\<forall>h \<in> set hs. header_template tmpl (p_business_type prospect) = Some h)
         \<and> message = join_with part_sep
                         (filter nonblank [greeting, intro, join_with line_sep (hs @ ls)])
         \<and> line_sep = [CHR 0x5C, CHR ''n''] \<and> part_sep = line_sep @ line_sep"
proof -
  from assms obtain base cz greeting intro ls where
    base: "whatsapp tmpl = Some base" and cz: "business_type_customization tmpl = Some cz"
    and g: "render_template (t_greeting base) [(''company'', p_company prospect)] = Inr greeting"
    and i: "render_template
               (js_or_undefined
                  (case cz (p_business_type prospect) of Some c \<Rightarrow> cz_intro c | None \<Rightarrow> None)
                  (t_intro base))
               [(''business_type'', p_business_type prospect), (''city'', p_city prospect)] = Inr intro"
    and l: "link_lines (t_demo_link_format base) urls = Inr ls"
    and m: "message = join_with part_sep (filter nonblank [greeting, intro, join_with line_sep ls])"
    by (auto simp: generateMessageForProspect_def Let_def split: option.splits sum.splits)
  have it: "intro_template tmpl (p_business_type prospect) =
      js_or_undefined
        (case cz (p_business_type prospect) of Some c \<Rightarrow> cz_intro c | None \<Rightarrow> None)
        (t_intro base)"
    by (simp add: intro_template_def base cz js_or_undefined_def split: option.splits)
  from link_lines_Inr [OF l] have len: "length ls = length urls"
    and each: "\<forall>j<length urls.
               render_template (t_demo_link_format base)
                 [(''display_name'', ue_display_name (urls ! j)),
                  (''short_url'', short_url_text (ue_short_url (urls ! j)))] = Inr (ls ! j)"
    by simp_all
  show ?thesis
    apply (rule exI [of _ base], rule exI [of _ greeting], rule exI [of _ intro],
           rule exI [of _ ls], rule exI [of _ "[]"])
    using base g i it len each m by (simp add: line_sep_def part_sep_def)
qed

theorem message_composition_witness:
  "generateMessageForProspect example_prospect_2 [example_joined_link, second_link] override_templates
     = Inr override_message
   \<and> intro_template override_templates ''landscaping''
       = Some ''Gardens in {city} deserve a modern site.''
   \<and> (\<exists>hs. (hs = [] \<or> hs = [''Demo sites:''])
          \<and> override_message =
              join_with part_sep
                [''Hi Green Thumb!'', ''Gardens in Phoenix deserve a modern site.'',
                 join_with line_sep (hs @ two_lines)])
   \<and> generateMessageForProspect example_prospect [example_joined_link, second_link] override_templates
       = Inr blank_intro_message
   \<and> intro_template override_templates ''plumbing'' = Some ''   ''
   \<and> (\<exists>hs. (hs = [] \<or> hs = [''Demo sites:''])
          \<and> blank_intro_message =
              join_with part_sep [''Hi Acme!'', join_with line_sep (hs @ two_lines)])"
proof -
  have base: "whatsapp override_templates = Some base \<Longrightarrow>
      t_greeting base = Some ''Hi {company}!''
    \<and> t_demo_link_format base = Some ''- {display_name}: {short_url}''" for base
    by (auto simp: override_templates_def)
  have i1: "intro_template override_templates ''landscaping''
              = Some ''Gardens in {city} deserve a modern site.''"
    by (simp add: intro_template_def override_templates_def)
  have i2: "intro_template override_templates ''plumbing'' = Some ''   ''"
    by (simp add: intro_template_def override_templates_def)
  have h1: "header_template override_templates ''landscaping'' = Some ''Demo sites:''"
    by (simp add: header_template_def override_templates_def)
  have h2: "header_template override_templates ''plumbing'' = Some ''Demo sites:''"
    by (simp add: header_template_def override_templates_def)
  have nb: "nonblank ''Hi Green Thumb!''" "nonblank ''Hi Acme!''"
    "nonblank ''Gardens in Phoenix deserve a modern site.''" "\<not> nonblank ''   ''"
    "nonblank (join_with line_sep ([] @ two_lines))"
    "nonblank (join_with line_sep ([''Demo sites:''] @ two_lines))"
    by (simp_all add: nonblank_def js_trim_def is_js_space_def two_lines_def line_sep_def)
  from message_composition [OF override_rendered]
  obtain base greeting intro ls hs where
    b: "whatsapp override_templates = Some base"
    and g: "render_template (t_greeting base) [(''company'', p_company example_prospect_2)] = Inr greeting"
    and i: "render_template (intro_template override_templates (p_business_type example_prospect_2))
              [(''business_type'', p_business_type example_prospect_2),
               (''city'', p_city example_prospect_2)] = Inr intro"
    and len: "length ls = length [example_joined_link, second_link]"
    and each: "\<forall>j<length [example_joined_link, second_link].
               render_template (t_demo_link_format base)
                 [(''display_name'', ue_display_name ([example_joined_link, second_link] ! j)),
                  (''short_url'', short_url_text (ue_short_url ([example_joined_link, second_link] ! j)))]
                = Inr (ls ! j)"
    and hl: "length hs \<le> 1"
    and hh: "\<forall>h \<in> set hs. header_template override_templates (p_business_type example_prospect_2) = Some h"
    and m: "override_message =
              join_with part_sep (filter nonblank [greeting, intro, join_with line_sep (hs @ ls)])"
    by blast
  from g base [OF b] have g': "greeting = ''Hi Green Thumb!''"
    by (simp add: example_prospect_2_def render_template_def replaceTemplateVariables_def
        js_replace_all_def)
  from i i1 have i': "intro = ''Gardens in Phoenix deserve a modern site.''"
    by (simp add: example_prospect_2_def render_template_def replaceTemplateVariables_def
        js_replace_all_def)
  from each base [OF b] have "ls = two_lines"
    by (intro two_lines_rendered [OF len]) simp
  moreover from hh h1 have "hs = [] \<or> hs = [''Demo sites:'']"
    by (intro header_slot [OF hl]) (simp add: example_prospect_2_def)
  ultimately have A: "\<exists>hs. (hs = [] \<or> hs = [''Demo sites:''])
          \<and> override_message =
              join_with part_sep
                [''Hi Green Thumb!'', ''Gardens in Phoenix deserve a modern site.'',
                 join_with line_sep (hs @ two_lines)]"
    using m g' i' nb by (intro exI [of _ hs]) auto
  from message_composition [OF blank_intro_rendered]
  obtain base greeting intro ls hs where
    b: "whatsapp override_templates = Some base"
    and g: "render_template (t_greeting base) [(''company'', p_company example_prospect)] = Inr greeting"
    and i: "render_template (intro_template override_templates (p_business_type example_prospect))
              [(''business_type'', p_business_type example_prospect),
               (''city'', p_city example_prospect)] = Inr intro"
    and len: "length ls = length [example_joined_link, second_link]"
    and each: "\<forall>j<length [example_joined_link, second_link].
               render_template (t_demo_link_format base)
                 [(''display_name'', ue_display_name ([example_joined_link, second_link] ! j)),
                  (''short_url'', short_url_text (ue_short_url ([example_joined_link, second_link] ! j)))]
                = Inr (ls ! j)"
    and hl: "length hs \<le> 1"
    and hh: "\<forall>h \<in> set hs. header_template override_templates (p_business_type example_prospect) = Some h"
    and m: "blank_intro_message =
              join_with part_sep (filter nonblank [greeting, intro, join_with line_sep (hs @ ls)])"
    by blast
  from g base [OF b] have g': "greeting = ''Hi Acme!''"
    by (simp add: example_prospect_def render_template_def replaceTemplateVariables_def
        js_replace_all_def)
  from i i2 have i': "intro = ''   ''"
    by (simp add: example_prospect_def render_template_def replaceTemplateVariables_def
        js_replace_all_def)
  from each base [OF b] have "ls = two_lines"
    by (intro two_lines_rendered [OF len]) simp
  moreover from hh h2 have "hs = [] \<or> hs = [''Demo sites:'']"
    by (intro header_slot [OF hl]) (simp add: example_prospect_def)
  ultimately have B: "\<exists>hs. (hs = [] \<or> hs = [''Demo sites:''])
          \<and> blank_intro_message =
              join_with part_sep [''Hi Acme!'', join_with line_sep (hs @ two_lines)]"
    using m g' i' nb by (intro exI [of _ hs]) auto
  from A B i1 i2 override_rendered blank_intro_rendered show ?thesis by blast
qed

text \<open>
  C6 as stated fails on the separators: the message rendered for the landscaping
  prospect holds no line feed at all, while the message the claim describes, with or
  without a header line, has a blank line between its parts and a line break between
  its link lines.
\<close>

theorem message_separator_counterexample:
  "generateMessageForProspect example_prospect_2 [example_joined_link, second_link] override_templates
     = Inr override_message
   \<and> CHR 0x0A \<notin> set override_message
   \<and> CHR 0x0A \<in> set (claimed_message ''Hi Green Thumb!'' ''Gardens in Phoenix deserve a modern site.''
                        (claimed_lines (''Demo sites:'' # two_lines)))
   \<and> claimed_message ''Hi Green Thumb!'' ''Gardens in Phoenix deserve a modern site.''
         (claimed_lines (''Demo sites:'' # two_lines)) \<noteq> override_message
   \<and> CHR 0x0A \<in> set (claimed_message ''Hi Green Thumb!'' ''Gardens in Phoenix deserve a modern site.''
                        (claimed_lines two_lines))
   \<and> claimed_message ''Hi Green Thumb!'' ''Gardens in Phoenix deserve a modern site.''
         (claimed_lines two_lines) \<noteq> override_message"
proof -
  have a: "CHR 0x0A \<notin> set override_message"
    by (simp add: override_message_def two_lines_def part_sep_def line_sep_def)
  have b: "CHR 0x0A \<in> set (claimed_message ''Hi Green Thumb!'' ''Gardens in Phoenix deserve a modern site.''
                        (claimed_lines (''Demo sites:'' # two_lines)))"
    by (simp add: claimed_message_def claimed_lines_def two_lines_def)
  have c: "CHR 0x0A \<in> set (claimed_message ''Hi Green Thumb!'' ''Gardens in Phoenix deserve a modern site.''
                        (claimed_lines two_lines))"
    by (simp add: claimed_message_def claimed_lines_def two_lines_def)
  from a b have d: "claimed_message ''Hi Green Thumb!'' ''Gardens in Phoenix deserve a modern site.''
         (claimed_lines (''Demo sites:'' # two_lines)) \<noteq> override_message"
    by metis
  from a c have e: "claimed_message ''Hi Green Thumb!'' ''Gardens in Phoenix deserve a modern site.''
         (claimed_lines two_lines) \<noteq> override_message"
    by metis
  from a b c d e override_rendered show ?thesis by blast
qed

text \<open>
  The header chosen for the category is computed by \<^verbatim>\<open>generateMessageForProspect\<close>
  and not used afterwards: changing the default header changes no message.
\<close>

lemma header_not_rendered:
  assumes "whatsapp tmpl = Some base"
  shows "generateMessageForProspect prospect urls
           (tmpl\<lparr>whatsapp := Some (base\<lparr>t_demo_section_header := h\<rparr>)\<rparr>)
         = generateMessageForProspect prospect urls tmpl"
  using assms by (auto simp: generateMessageForProspect_def Let_def split: option.splits sum.splits)
text \<open>
  C7 fails on the code: a dollar sign in a value is read as the start of a
  replacement pattern. For a company named \<open>Save$$ Plumbing\<close> the greeting comes out
  with one dollar sign, so it is not the template with the placeholder replaced by the
  literal value, and it does not contain the company name.
\<close>

theorem dollar_value_not_literal:
  "replaceTemplateVariables ''Hi {company}!'' [(''company'', p_company dollar_prospect)]
     = ''Hi Save$ Plumbing!''
   \<and> literal_replace_all ''{company}'' (p_company dollar_prospect) ''Hi {company}!''
     = ''Hi Save$$ Plumbing!''
   \<and> \<not> sublist (p_company dollar_prospect)
         (replaceTemplateVariables ''Hi {company}!'' [(''company'', p_company dollar_prospect)])"
proof -
  have a: "replaceTemplateVariables ''Hi {company}!'' [(''company'', p_company dollar_prospect)]
     = ''Hi Save$ Plumbing!''"
    by (simp add: replaceTemplateVariables_def js_replace_all_def dollar_prospect_def)
  have b: "literal_replace_all ''{company}'' (p_company dollar_prospect) ''Hi {company}!''
     = ''Hi Save$$ Plumbing!''"
    by (simp add: literal_replace_all_def dollar_prospect_def)
  have c: "\<not> sublist (p_company dollar_prospect) ''Hi Save$ Plumbing!''"
    by (simp add: dollar_prospect_def sublist_code)
  from a b c show ?thesis by simp
qed

text \<open>
  A value without a dollar sign is inserted as it is: on such values the replacement
  of the source is the literal replacement.
\<close>

lemma getSubstitution_dollar_free:
  assumes "CHR ''$'' \<notin> set rep"
  shows "getSubstitution matched pre post rep = rep"
  using assms by (induction matched pre post rep rule: getSubstitution.induct) auto

lemma replace_scan_dollar_free:
  assumes "CHR ''$'' \<notin> set rep"
  shows "replace_scan pat rep pre skip s = literal_scan pat rep skip s"
proof (induction s arbitrary: pre skip)
  case Nil
  show ?case by simp
next
  case (Cons c cs)
  show ?case
    by (cases skip) (simp_all add: Cons.IH getSubstitution_dollar_free [OF assms])
qed

lemma dollar_free_literal:
  assumes "CHR ''$'' \<notin> set v"
  shows "replaceTemplateVariables template [(key, v)] = literal_replace_all (''{'' @ key @ ''}'') v template"
  using replace_scan_dollar_free [OF assms]
  by (simp add: replaceTemplateVariables_def js_replace_all_def literal_replace_all_def)

section \<open>Properties of the Record Validator\<close>

text \<open>
  A row with a required cell absent or blank fails with one message that names every
  missing field, in the order company, city, phone, business_type.
\<close>

lemma missing_fields_named:
  assumes "is_missing row ''company'' \<or> is_missing row ''city'' \<or> is_missing row ''phone''
             \<or> is_missing row ''business_type''"
  shows "validateAndCleanProspect row rowNumber =
           Inl (Error (''Missing required fields: ''
                       @ join_with '', '' (filter (is_missing row) requiredFields)))"
    and "set (filter (is_missing row) requiredFields) =
           {f. f \<in> {''company'', ''city'', ''phone'', ''business_type''} \<and> is_missing row f}"
proof -
  from assms have "filter (is_missing row) requiredFields \<noteq> []"
    by (auto simp: requiredFields_def)
  then show "validateAndCleanProspect row rowNumber =
           Inl (Error (''Missing required fields: ''
                       @ join_with '', '' (filter (is_missing row) requiredFields)))"
    by (simp add: validateAndCleanProspect_def Let_def del: append.simps)
  show "set (filter (is_missing row) requiredFields) =
           {f. f \<in> {''company'', ''city'', ''phone'', ''business_type''} \<and> is_missing row f}"
    by (auto simp: requiredFields_def)
qed

text \<open>
  C5 fails on the code: the validator has no fallback business type. The orchestrator
  passes the operator's choice as a second argument, which \<^verbatim>\<open>parseProspectsCSV\<close>
  does not declare, so the choice never reaches the validator: a row whose business type
  cell is blank fails with the message that names \<open>business_type\<close> as missing, whatever
  fallback the caller supplies, and a batch of that row alone yields no prospect.
\<close>

theorem fallback_type_ignored:
  "validateAndCleanProspect blank_type_row 1 = Inl (Error ''Missing required fields: business_type'')
   \<and> main_parse fallback [blank_type_row] = Inl (Error ''No valid prospects found in CSV file'')"
  by code_simp

text \<open>
  What the validator does guarantee. A business type it returns is one of the three
  categories unless the cleaned cell names a member of \<^verbatim>\<open>Object.prototype\<close>. The
  identifier is \<open>prospect_\<close> followed by the row number padded with zeros to four
  digits, the row numbers of the prospects of a batch increase strictly, and the
  identifiers of a batch are pairwise distinct.
\<close>

lemma corrections_canonical:
  assumes "map_of corrections k = Some c"
  shows "c \<in> set validTypes"
  using assms by (auto simp: corrections_def validTypes_def split: if_splits)

lemma business_type_canonical:
  assumes "validateBusinessType cell = Inr v"
  shows "(\<exists>s \<in> set validTypes. v = StringValue s)
       \<or> (\<exists>b. cell = Some b \<and> toLowerCase (js_trim b) \<in> set objectPrototypeKeys
              \<and> v = PrototypeMember (toLowerCase (js_trim b)))"
  using assms
  by (auto simp: validateBusinessType_def Let_def split: option.splits if_splits
      dest: corrections_canonical)

lemma digits_value_snoc:
  "digits_value (s @ [c]) = 10 * digits_value s + ((of_char c :: nat) - 48)"
  by (simp add: digits_value_def)

lemma of_char_digit_char: "d < 10 \<Longrightarrow> (of_char (digit_char d) :: nat) = 48 + d"
  by (simp add: digit_char_def)

lemma digits_value_nat_toString: "digits_value (nat_toString n) = n"
proof (induction n rule: nat_toString.induct)
  case (1 n)
  show ?case
  proof (cases "n < 10")
    case True
    then show ?thesis
      by (subst nat_toString.simps) (simp add: digits_value_def of_char_digit_char)
  next
    case False
    with "1" have "digits_value (nat_toString (n div 10)) = n div 10" by simp
    with False show ?thesis
      by (subst nat_toString.simps) (simp add: digits_value_snoc of_char_digit_char)
  qed
qed

lemma digits_value_zeros: "digits_value (replicate k (CHR ''0'') @ s) = digits_value s"
proof -
  have "foldl (\<lambda>a c. 10 * a + ((of_char c :: nat) - 48)) 0 (replicate k (CHR ''0'')) = 0"
    by (induction k) simp_all
  then show ?thesis by (simp add: digits_value_def)
qed

lemma prospect_id_of_inj:
  assumes "prospect_id_of a = prospect_id_of b"
  shows "a = b"
proof -
  from assms have "padStart 4 (CHR ''0'') (nat_toString a) = padStart 4 (CHR ''0'') (nat_toString b)"
    by (simp add: prospect_id_of_def)
  then have "digits_value (padStart 4 (CHR ''0'') (nat_toString a))
           = digits_value (padStart 4 (CHR ''0'') (nat_toString b))"
    by simp
  then show ?thesis
    by (simp add: padStart_def digits_value_zeros digits_value_nat_toString)
qed

lemma validateAndCleanProspect_id:
  assumes "validateAndCleanProspect row n = Inr p"
  shows "p_id p = prospect_id_of n \<and> p_original_row p = n
       \<and> validateBusinessType (row ''business_type'') = Inr (p_business_type p)"
  using assms
  by (auto simp: validateAndCleanProspect_def Let_def split: if_splits sum.splits)

lemma parse_rows_invariant:
  assumes "parse_rows rows rc (ps, es) = (ps', es')"
  shows "\<exists>qs. ps' = ps @ qs
           \<and> sorted_wrt (<) (map p_original_row qs)
           \<and> (\<forall>p \<in> set qs. rc < p_original_row p \<and> p_original_row p \<le> rc + length rows
                 \<and> p_id p = prospect_id_of (p_original_row p)
                 \<and> (\<exists>row \<in> set rows. validateAndCleanProspect row (p_original_row p) = Inr p))"
  using assms
proof (induction rows arbitrary: rc ps es)
  case Nil
  then show ?case by simp
next
  case (Cons row rows)
  show ?case
  proof (cases "validateAndCleanProspect row (rc + 1)")
    case (Inl e)
    with Cons.prems have "parse_rows rows (rc + 1)
        (ps, es @ [''Row '' @ nat_toString (rc + 1) @ '': '' @ message_of e]) = (ps', es')"
      by simp
    from Cons.IH [OF this] obtain qs where "ps' = ps @ qs"
      "sorted_wrt (<) (map p_original_row qs)"
      "\<forall>p \<in> set qs. rc + 1 < p_original_row p \<and> p_original_row p \<le> rc + 1 + length rows
                 \<and> p_id p = prospect_id_of (p_original_row p)
                 \<and> (\<exists>row \<in> set rows. validateAndCleanProspect row (p_original_row p) = Inr p)"
      by blast
    then show ?thesis
      by (intro exI [of _ qs]) fastforce
  next
    case (Inr p)
    with Cons.prems have "parse_rows rows (rc + 1) (ps @ [p], es) = (ps', es')"
      by simp
    from Cons.IH [OF this] obtain qs where qs: "ps' = (ps @ [p]) @ qs"
      "sorted_wrt (<) (map p_original_row qs)"
      "\<forall>q \<in> set qs. rc + 1 < p_original_row q \<and> p_original_row q \<le> rc + 1 + length rows
                 \<and> p_id q = prospect_id_of (p_original_row q)
                 \<and> (\<exists>row \<in> set rows. validateAndCleanProspect row (p_original_row q) = Inr q)"
      by blast
    from validateAndCleanProspect_id [OF Inr] have p: "p_id p = prospect_id_of (rc + 1)"
      "p_original_row p = rc + 1" by simp_all
    show ?thesis
    proof (intro exI [of _ "p # qs"] conjI)
      show "ps' = ps @ p # qs" using qs(1) by simp
      show "sorted_wrt (<) (map p_original_row (p # qs))" using qs(2,3) p by auto
      show "\<forall>q \<in> set (p # qs). rc < p_original_row q \<and> p_original_row q \<le> rc + length (row # rows)
                 \<and> p_id q = prospect_id_of (p_original_row q)
                 \<and> (\<exists>r \<in> set (row # rows). validateAndCleanProspect r (p_original_row q) = Inr q)"
        using qs(3) p Inr by fastforce
    qed
  qed
qed

lemma prospect_ids_unique:
  assumes "parseProspectsCSV rows = Inr prospects"
  shows "distinct (map p_id prospects)"
    and "\<forall>p \<in> set prospects. p_id p = prospect_id_of (p_original_row p)
            \<and> 1 \<le> p_original_row p \<and> p_original_row p \<le> length rows
            \<and> (\<exists>row \<in> set rows. validateAndCleanProspect row (p_original_row p) = Inr p)"
proof -
  obtain es where run: "parse_rows rows 0 ([], []) = (prospects, es)"
    using assms by (auto simp: parseProspectsCSV_def split: prod.splits if_splits)
  from parse_rows_invariant [OF run] have sorted: "sorted_wrt (<) (map p_original_row prospects)"
    and each: "\<forall>p \<in> set prospects. 0 < p_original_row p \<and> p_original_row p \<le> 0 + length rows
                 \<and> p_id p = prospect_id_of (p_original_row p)
                 \<and> (\<exists>row \<in> set rows. validateAndCleanProspect row (p_original_row p) = Inr p)"
    by auto
  from sorted have "distinct (map p_original_row prospects)"
    by (simp add: strict_sorted_iff)
  moreover have "inj_on prospect_id_of A" for A
    by (rule inj_onI) (rule prospect_id_of_inj)
  ultimately have "distinct (map prospect_id_of (map p_original_row prospects))"
    by (simp only: distinct_map [of prospect_id_of] simp_thms)
  then have d: "distinct (map (prospect_id_of \<circ> p_original_row) prospects)"
    by simp
  have e: "map p_id prospects = map (prospect_id_of \<circ> p_original_row) prospects"
    using each by (intro map_cong) auto
  show "distinct (map p_id prospects)"
    by (subst e) (rule d)
  from each show "\<forall>p \<in> set prospects. p_id p = prospect_id_of (p_original_row p)
            \<and> 1 \<le> p_original_row p \<and> p_original_row p \<le> length rows
            \<and> (\<exists>row \<in> set rows. validateAndCleanProspect row (p_original_row p) = Inr p)"
    by auto
qed

text \<open>
  C9 fails on the code: the corrections table is an object literal, and a cell that
  names a member of \<^verbatim>\<open>Object.prototype\<close>, such as \<open>constructor\<close>, is not among the
  valid types, finds that member in the table and is accepted; the prospect's business
  type is then the member, not one of the three categories.
\<close>

theorem constructor_cell_accepted:
  "validateAndCleanProspect constructor_row 1 =
     Inr \<lparr>p_id = ''prospect_0001'', p_company = ''Quick Fix'', p_city = ''Denver'',
          p_phone = ''303-555-0123'', p_business_type = PrototypeMember ''constructor'',
          p_original_row = 1\<rparr>
   \<and> parseProspectsCSV [constructor_row] =
     Inr [\<lparr>p_id = ''prospect_0001'', p_company = ''Quick Fix'', p_city = ''Denver'',
           p_phone = ''303-555-0123'', p_business_type = PrototypeMember ''constructor'',
           p_original_row = 1\<rparr>]"
  by code_simp

end
